theory Spec2Isabelle
  imports Complex_Main
begin

section \<open>Strings\<close>

text \<open>
  A JavaScript string is a sequence of UTF-16 code units. The model works on the code
  units U+0000 .. U+00FF, one \<^typ>\<open>char\<close> each, so that \<open>length\<close> is the
  \<open>.length\<close> of the source and \<open>charAt\<close> comparison is equality of characters.
\<close>

text \<open>\<open>String.prototype.toLowerCase\<close> on one code unit of that range: the letters
  A .. Z and the capital letters U+00C0 .. U+00DE (without the multiplication sign U+00D7)
  move up by 32, every other code unit is kept.\<close>

definition toLowerChar :: "char \<Rightarrow> char" where
  "toLowerChar c =
     (let n = (of_char c :: nat)
      in if (65 \<le> n \<and> n \<le> 90) \<or> (192 \<le> n \<and> n \<le> 222 \<and> n \<noteq> 215)
         then char_of (n + 32) else c)"

definition toLowerCase :: "string \<Rightarrow> string" where
  "toLowerCase s = map toLowerChar s"

text \<open>White space as \<open>trim\<close> and the regular expression class \<open>\s\<close> see it: TAB, LF,
  VT, FF, CR, SP and NBSP are the ones below U+0100.\<close>

definition isWhiteSpace :: "char \<Rightarrow> bool" where
  "isWhiteSpace c = ((of_char c :: nat) \<in> {9, 10, 11, 12, 13, 32, 160})"

definition trim :: "string \<Rightarrow> string" where
  "trim s = rev (dropWhile isWhiteSpace (rev (dropWhile isWhiteSpace s)))"

definition startsWith :: "string \<Rightarrow> string \<Rightarrow> bool" where
  "startsWith s q = (take (length q) s = q)"

text \<open>\<open>String.prototype.includes\<close> (the name \<open>includes\<close> is reserved in Isabelle).\<close>

fun includesStr :: "string \<Rightarrow> string \<Rightarrow> bool" where
  "includesStr [] q = (q = [])"
| "includesStr (c # cs) q = (startsWith (c # cs) q \<or> includesStr cs q)"

text \<open>\<open>s.split(sep)\<close> for a separator that is one code unit out of a class: the pieces
  between the separators, empty pieces kept, and one empty piece for the empty string.\<close>

fun splitOn :: "(char \<Rightarrow> bool) \<Rightarrow> string \<Rightarrow> string list" where
  "splitOn P [] = [[]]"
| "splitOn P (c # cs) =
     (if P c then [] # splitOn P cs
      else (case splitOn P cs of [] \<Rightarrow> [[c]] | w # ws \<Rightarrow> (c # w) # ws))"

text \<open>
  The numbers of the source are IEEE doubles. The model computes with integers and exact
  rationals: the quotients it forms are quotients of string lengths. \<open>Math.round\<close> gives
  the nearest integer, a half rounded up.
\<close>

definition mathRound :: "rat \<Rightarrow> int" where
  "mathRound x = \<lfloor>x + 1 / 2\<rfloor>"

section \<open>Edit distance\<close>

text \<open>
  \<open>NepalGeoData.levenshteinDistance\<close> fills a matrix with one row for every prefix of
  \<open>str2\<close> and one column for every prefix of \<open>str1\<close>. Row 0 is \<open>0, 1, .., len1\<close>,
  column 0 of row \<open>i\<close> is \<open>i\<close>, and every other cell is computed from the cell to its
  upper left (\<open>diag\<close>), the cell above (\<open>up\<close>) and the cell to its left (\<open>left\<close>).
  The model keeps one row at a time: a row only reads the row above it.
\<close>

fun rowCells :: "char \<Rightarrow> string \<Rightarrow> nat \<Rightarrow> nat list \<Rightarrow> nat \<Rightarrow> nat list" where
  "rowCells c [] diag ups left = []"
| "rowCells c (x # xs) diag [] left = []"
| "rowCells c (x # xs) diag (up # ups) left =
     (let cell = (if c = x then diag else min (diag + 1) (min (left + 1) (up + 1)))
      in cell # rowCells c xs up ups cell)"

text \<open>The second equation of \<open>rowCells\<close> is never reached: the row above has
  \<open>len1 + 1\<close> cells. Likewise the row above is never empty in \<open>matrixRow\<close>.\<close>

fun matrixRow :: "string \<Rightarrow> nat \<Rightarrow> char \<Rightarrow> nat list \<Rightarrow> nat list" where
  "matrixRow str1 i c (d0 # ups) = i # rowCells c str1 d0 ups i"
| "matrixRow str1 i c [] = [i]"

fun matrixRows :: "string \<Rightarrow> nat \<Rightarrow> string \<Rightarrow> nat list \<Rightarrow> nat list" where
  "matrixRows str1 i [] row = row"
| "matrixRows str1 i (c # cs) row = matrixRows str1 (Suc i) cs (matrixRow str1 (Suc i) c row)"

definition levenshteinDistance :: "string \<Rightarrow> string \<Rightarrow> nat" where
  "levenshteinDistance str1 str2 = last (matrixRows str1 0 str2 [0..<Suc (length str1)])"

text \<open>
  \<open>LocationValidator.calculateSimilarity\<close> builds the same matrix with the same two
  initialisation loops and the same double loop, and then normalises the last cell by the
  longer length. The quotient of the two integers is taken as a rational number.
\<close>

definition calculateSimilarity :: "string \<Rightarrow> string \<Rightarrow> rat" where
  "calculateSimilarity str1 str2 =
     (let len1 = length str1;
          len2 = length str2;
          cell = last (matrixRows str1 0 str2 [0..<Suc len1]);
          maxLength = max len1 len2
      in if maxLength = 0 then 1 else (of_nat maxLength - of_nat cell) / of_nat maxLength)"

text \<open>The recursive edit distance the matrix tabulates, on the reversed prefixes.\<close>

fun editDistance :: "'a list \<Rightarrow> 'a list \<Rightarrow> nat" where
  "editDistance [] ys = length ys"
| "editDistance (x # xs) [] = Suc (length xs)"
| "editDistance (x # xs) (y # ys) =
     (if x = y then editDistance xs ys
      else min (editDistance xs ys + 1)
             (min (editDistance (x # xs) ys + 1) (editDistance xs (y # ys) + 1)))"

text \<open>\<open>tab f b xs\<close> lists \<open>f\<close> at the reversed prefixes that extend \<open>b\<close> by the
  characters of \<open>xs\<close>, one after the other.\<close>

fun tab :: "('a list \<Rightarrow> nat) \<Rightarrow> 'a list \<Rightarrow> 'a list \<Rightarrow> nat list" where
  "tab f b [] = []"
| "tab f b (x # xs) = f (x # b) # tab f (x # b) xs"

section \<open>Similarity Engine\<close>

text \<open>The table \<open>abbreviations\<close> of \<open>NepalGeoData.calculateFuzzyScore\<close>, in the order
  of the source.\<close>

definition abbreviations :: "(string \<times> string) list" where
  "abbreviations =
     [(''ktm'', ''kathmandu''), (''pok'', ''pokhara''), (''pokhra'', ''pokhara''),
      (''lalitpurr'', ''lalitpur''), (''bhkt'', ''bhaktapur''), (''bkt'', ''bhaktapur''),
      (''chitawan'', ''chitwan''), (''chit'', ''chitwan'')]"

text \<open>
  The two abbreviation tests of \<open>calculateFuzzyScore\<close>: the query is a key of the table
  and the text contains its full form, or the query is a full form and the text contains
  one of its keys. (For the lower-case queries \<open>constructor\<close> and \<open>__proto__\<close> the
  lookup \<open>abbreviations[query]\<close> of the source finds an inherited property; its string
  form has a capital letter, which the lower-cased text never contains, so the test fails
  there as it does in the table.)
\<close>

definition abbreviationMatch :: "string \<Rightarrow> string \<Rightarrow> bool" where
  "abbreviationMatch text query =
     ((case map_of abbreviations query of
         None \<Rightarrow> False
       | Some full \<Rightarrow> includesStr text full)
      \<or> list_ex (\<lambda>(abbrev, full). query = full \<and> includesStr text abbrev) abbreviations)"

text \<open>The acronym test: the first letters of the first \<open>query.length\<close> words of the
  text, the words being split at white space and hyphens.\<close>

definition acronymMatch :: "string \<Rightarrow> string \<Rightarrow> bool" where
  "acronymMatch text query =
     (2 \<le> length query \<and> length query \<le> 4 \<and>
      (let words = splitOn (\<lambda>c. isWhiteSpace c \<or> c = CHR ''-'') text
       in length query \<le> length words \<and>
          concat (map (take 1) (take (length query) words)) = query))"

text \<open>The local \<open>similarity\<close> of \<open>calculateFuzzyScore\<close>, as a rational number.\<close>

definition fuzzySimilarity :: "string \<Rightarrow> string \<Rightarrow> rat" where
  "fuzzySimilarity text query =
     1 - of_nat (levenshteinDistance text query) / of_nat (max (length text) (length query))"

text \<open>For two empty strings the source divides 0 by 0; the comparison of the resulting
  NaN with 0.6 is false and the score is 0.\<close>

definition calculateFuzzyScore :: "string \<Rightarrow> string \<Rightarrow> int" where
  "calculateFuzzyScore text query =
     (if abbreviationMatch text query then 75
      else if acronymMatch text query then 70
      else if max (length text) (length query) = 0 then 0
      else if 6 / 10 < fuzzySimilarity text query
           then mathRound (fuzzySimilarity text query * 50)
      else 0)"

definition calculateRelevance :: "string \<Rightarrow> string \<Rightarrow> int" where
  "calculateRelevance text query =
     (let normalizedText = toLowerCase text;
          normalizedQuery = toLowerCase query
      in if normalizedText = normalizedQuery then 100
         else if startsWith normalizedText normalizedQuery then 80
         else if includesStr normalizedText normalizedQuery then 60
         else (let fuzzyScore = calculateFuzzyScore normalizedText normalizedQuery
               in if 0 < fuzzyScore then fuzzyScore
                  else foldl (\<lambda>score word. if includesStr normalizedText word
                                            then score + 20 else score)
                         0 (splitOn (\<lambda>c. c = CHR '' '') normalizedQuery)))"

section \<open>Dataset Store\<close>

text \<open>
  The field names of the source objects carry a prefix in the records (\<open>po_\<close> for a post
  office, \<open>d_\<close> for a district), since several objects of the source have a \<open>name\<close>.
  \<open>geoData\<close> holds the values of the \<open>districts\<close> object in the order in which
  \<open>Object.values\<close> and \<open>Object.keys\<close> enumerate them, and the \<open>postOffices\<close> array.
\<close>

record postOffice =
  po_name :: string
  po_postalCode :: string
  po_type :: string
  po_district :: string

record district =
  d_name :: string
  d_postOfficeCount :: nat
  d_postOffices :: "postOffice list"

record geoData =
  districts :: "district list"
  postOffices :: "postOffice list"

text \<open>One entry of \<open>postal_data\<close>: the columns \<open>District\<close>, \<open>Post Office\<close>,
  \<open>Postal/Pin Code\<close> and \<open>Post Office Type\<close>.\<close>

record rawRecord =
  rawDistrict :: string
  rawPostOffice :: string
  rawPostalCode :: string
  rawType :: string

definition corrections :: "(string \<times> string) list" where
  "corrections =
     [(''Chitawan'', ''Chitwan''), (''Kaverpalanchok'', ''Kavrepalanchok''),
      (''Makabanpur'', ''Makawanpur''), (''Taplajung'', ''Taplejung''),
      (''Kailal'', ''Kailali''), (''Syanja'', ''Syangja'')]"

definition normalizeDistrictName :: "string \<Rightarrow> string" where
  "normalizeDistrictName district =
     (let normalized = trim district
      in case map_of corrections normalized of Some corrected \<Rightarrow> corrected | None \<Rightarrow> normalized)"

text \<open>
  \<open>addToDistrict\<close> is the update of \<open>this.districts[district]\<close> in \<open>processData\<close>: a
  new district is appended with its first post office, a known one gets its counter
  incremented and the post office pushed. District names are taken to be neither names of
  inherited object properties nor array indices, which JavaScript objects treat apart.
\<close>

fun addToDistrict :: "district list \<Rightarrow> string \<Rightarrow> postOffice \<Rightarrow> district list" where
  "addToDistrict [] dname po =
     [\<lparr>d_name = dname, d_postOfficeCount = 1, d_postOffices = [po]\<rparr>]"
| "addToDistrict (d # ds) dname po =
     (if d_name d = dname
      then d\<lparr>d_postOfficeCount := d_postOfficeCount d + 1,
             d_postOffices := d_postOffices d @ [po]\<rparr> # ds
      else d # addToDistrict ds dname po)"

definition processEntry :: "geoData \<Rightarrow> rawRecord \<Rightarrow> geoData" where
  "processEntry g entry =
     (let dname = normalizeDistrictName (rawDistrict entry);
          po = \<lparr>po_name = rawPostOffice entry, po_postalCode = rawPostalCode entry,
                po_type = rawType entry, po_district = dname\<rparr>
      in \<lparr>districts = addToDistrict (districts g) dname po,
          postOffices = postOffices g @ [po]\<rparr>)"

text \<open>\<open>processData\<close> throws when \<open>postal_data\<close> is missing (\<open>None\<close> here).\<close>

definition processData :: "rawRecord list option \<Rightarrow> string + geoData" where
  "processData postal_data =
     (case postal_data of
        None \<Rightarrow> Inl ''Invalid postal data structure''
      | Some entries \<Rightarrow> Inr (foldl processEntry \<lparr>districts = [], postOffices = []\<rparr> entries))"

definition getAllDistricts :: "geoData \<Rightarrow> district list" where
  "getAllDistricts g = districts g"

definition getAllPostOffices :: "geoData \<Rightarrow> postOffice list" where
  "getAllPostOffices g = postOffices g"

text \<open>\<open>getDistrictByName\<close> finds the first key that matches and then tests the key for
  truth, so the empty key counts as not found.\<close>

definition getDistrictByName :: "geoData \<Rightarrow> string \<Rightarrow> district option" where
  "getDistrictByName g name =
     (let normalizedName = trim (toLowerCase name)
      in case find (\<lambda>d. toLowerCase (d_name d) = normalizedName) (districts g) of
           None \<Rightarrow> None
         | Some d \<Rightarrow> if d_name d = [] then None else Some d)"

definition getPostOfficeByCode :: "geoData \<Rightarrow> string \<Rightarrow> postOffice option" where
  "getPostOfficeByCode g postalCode = find (\<lambda>po. po_postalCode po = postalCode) (postOffices g)"

section \<open>Sorting\<close>

text \<open>
  \<open>Array.prototype.sort\<close> is a stable sort: for a comparator that orders the elements
  consistently, \<open>a\<close> stays before \<open>b\<close> unless the comparator returns a positive number
  for \<open>(a, b)\<close>. Insertion from the right end of the array is such a sort.
\<close>

fun insertSorted :: "('a \<Rightarrow> 'a \<Rightarrow> 'b::{zero,linorder}) \<Rightarrow> 'a \<Rightarrow> 'a list \<Rightarrow> 'a list" where
  "insertSorted cmp x [] = [x]"
| "insertSorted cmp x (y # ys) =
     (if cmp x y \<le> 0 then x # y # ys else y # insertSorted cmp x ys)"

definition jsSort :: "('a \<Rightarrow> 'a \<Rightarrow> 'b::{zero,linorder}) \<Rightarrow> 'a list \<Rightarrow> 'a list" where
  "jsSort cmp xs = foldr (insertSorted cmp) xs []"

section \<open>Query Router\<close>

text \<open>A result of \<open>NepalGeoData.search\<close>; \<open>district\<close> and \<open>postalCode\<close> are absent
  on a district result.\<close>

record result =
  r_type :: string
  r_name :: string
  r_district :: "string option"
  r_postalCode :: "string option"
  relevance :: int

text \<open>A result of \<open>GeoSearch\<close>: \<open>{...result, matchType}\<close>.\<close>

record searchResult = result +
  matchType :: string

definition districtHit :: "string \<Rightarrow> district \<Rightarrow> result option" where
  "districtHit normalizedQuery d =
     (let rel = calculateRelevance (d_name d) normalizedQuery
      in if 0 < rel
         then Some \<lparr>r_type = ''district'', r_name = d_name d, r_district = None,
                     r_postalCode = None, relevance = rel\<rparr>
         else None)"

definition postOfficeHit :: "string \<Rightarrow> string \<Rightarrow> postOffice \<Rightarrow> result option" where
  "postOfficeHit query normalizedQuery po =
     (let nameRelevance = calculateRelevance (po_name po) normalizedQuery;
          postalRelevance = (if includesStr (po_postalCode po) query then 90 else 0);
          maxRelevance = max nameRelevance postalRelevance
      in if 0 < maxRelevance
         then Some \<lparr>r_type = ''postOffice'', r_name = po_name po,
                     r_district = Some (po_district po),
                     r_postalCode = Some (po_postalCode po), relevance = maxRelevance\<rparr>
         else None)"

text \<open>\<open>NepalGeoData.search(query, type)\<close>.\<close>

definition search :: "geoData \<Rightarrow> string \<Rightarrow> string \<Rightarrow> result list" where
  "search g query type =
     (let normalizedQuery = trim (toLowerCase query);
          districtHits =
            (if type = ''all'' \<or> type = ''district''
             then List.map_filter (districtHit normalizedQuery) (districts g) else []);
          postOfficeHits =
            (if type = ''all'' \<or> type = ''postOffice''
             then List.map_filter (postOfficeHit query normalizedQuery) (postOffices g)
             else []);
          results = districtHits @ postOfficeHits
      in jsSort (\<lambda>a b. relevance b - relevance a) (filter (\<lambda>r. 20 < relevance r) results))"

text \<open>The regular expression \<open>/^\d{5}$/\<close>.\<close>

definition isDigit :: "char \<Rightarrow> bool" where
  "isDigit c = (48 \<le> (of_char c :: nat) \<and> (of_char c :: nat) \<le> 57)"

definition isPostalCode :: "string \<Rightarrow> bool" where
  "isPostalCode s = (length s = 5 \<and> list_all isDigit s)"

definition searchByPostalCode :: "geoData \<Rightarrow> string \<Rightarrow> postOffice option" where
  "searchByPostalCode g postalCode = getPostOfficeByCode g postalCode"

text \<open>\<open>GeoSearch.determineMatchType(query, result)\<close>; an absent or empty
  \<open>result.postalCode\<close> is false.\<close>

definition determineMatchType :: "string \<Rightarrow> string \<Rightarrow> string option \<Rightarrow> string" where
  "determineMatchType query name postalCode =
     (let normalizedQuery = toLowerCase query;
          normalizedName = toLowerCase name
      in if normalizedName = normalizedQuery then ''exact''
         else if startsWith normalizedName normalizedQuery then ''prefix''
         else if includesStr normalizedName normalizedQuery then ''contains''
         else if (case postalCode of
                    None \<Rightarrow> False
                  | Some code \<Rightarrow> code \<noteq> [] \<and> includesStr code query) then ''postal_code''
         else ''fuzzy'')"

definition withMatchType :: "string \<Rightarrow> result \<Rightarrow> searchResult" where
  "withMatchType query r =
     result.extend r
       (searchResult.fields (determineMatchType query (r_name r) (r_postalCode r)))"

text \<open>The key of \<open>removeDuplicates\<close>:
  \<open>`${type}-${name}-${district || ''}-${postalCode || ''}`\<close>.\<close>

definition resultKey :: "searchResult \<Rightarrow> string" where
  "resultKey r =
     r_type r @ ''-'' @ r_name r @ ''-'' @
     (case r_district r of None \<Rightarrow> [] | Some d \<Rightarrow> d) @ ''-'' @
     (case r_postalCode r of None \<Rightarrow> [] | Some c \<Rightarrow> c)"

fun removeDuplicatesSeen :: "string list \<Rightarrow> searchResult list \<Rightarrow> searchResult list" where
  "removeDuplicatesSeen seen [] = []"
| "removeDuplicatesSeen seen (r # rs) =
     (if resultKey r \<in> set seen then removeDuplicatesSeen seen rs
      else r # removeDuplicatesSeen (resultKey r # seen) rs)"

definition removeDuplicates :: "searchResult list \<Rightarrow> searchResult list" where
  "removeDuplicates results = removeDuplicatesSeen [] results"

definition matchTypePriority :: "string \<Rightarrow> int" where
  "matchTypePriority mt =
     (case map_of [(''exact'', 5), (''exact_postal'', 5), (''prefix'', 4), (''contains'', 3),
                   (''postal_code'', 2), (''fuzzy'', 1), (''advanced_search'', 1)] mt of
        None \<Rightarrow> 0
      | Some p \<Rightarrow> p)"

definition compareRelevance :: "searchResult \<Rightarrow> searchResult \<Rightarrow> int" where
  "compareRelevance a b =
     (let aPriority = matchTypePriority (matchType a);
          bPriority = matchTypePriority (matchType b)
      in if aPriority \<noteq> bPriority then bPriority - aPriority
         else relevance b - relevance a)"

text \<open>
  \<open>GeoSearch.sortResults(results, sortBy)\<close>. \<open>String.prototype.localeCompare\<close> depends on
  the locale of the host; it is a parameter of the model.
\<close>

definition sortResults ::
  "(string \<Rightarrow> string \<Rightarrow> int) \<Rightarrow> searchResult list \<Rightarrow> string \<Rightarrow> searchResult list" where
  "sortResults localeCompare results sortBy =
     (if sortBy = ''name'' then jsSort (\<lambda>a b. localeCompare (r_name a) (r_name b)) results
      else if sortBy = ''district''
      then jsSort (\<lambda>a b.
             let districtCompare =
                   localeCompare (case r_district a of None \<Rightarrow> [] | Some d \<Rightarrow> d)
                                 (case r_district b of None \<Rightarrow> [] | Some d \<Rightarrow> d)
             in if districtCompare \<noteq> 0 then districtCompare
                else localeCompare (r_name a) (r_name b)) results
      else jsSort compareRelevance results)"

text \<open>The options of \<open>searchByQuery\<close>; \<open>limit\<close> is a number of results, for which
  \<open>slice(0, limit)\<close> takes the first \<open>limit\<close> elements.\<close>

record searchOptions =
  limit :: nat
  minRelevance :: rat
  includeType :: string
  sortBy :: string

definition defaultSearchOptions :: searchOptions where
  "defaultSearchOptions =
     \<lparr>limit = 10, minRelevance = 3 / 10, includeType = ''all'', sortBy = ''relevance''\<rparr>"

text \<open>The values a caller can pass where the source expects a string, an object or an
  array. Numbers are rationals; an object is the list of its own properties.\<close>

datatype jsval =
    JUndefined
  | JNull
  | JBool bool
  | JNum rat
  | JStr string
  | JArr "jsval list"
  | JObj "(string \<times> jsval) list"

definition exactPostalResult :: "postOffice \<Rightarrow> searchResult" where
  "exactPostalResult po =
     \<lparr>r_type = ''postOffice'', r_name = po_name po, r_district = Some (po_district po),
      r_postalCode = Some (po_postalCode po), relevance = 100, matchType = ''exact_postal''\<rparr>"

text \<open>\<open>GeoSearch.searchByQuery(query, options)\<close>: a query that is not a string, or is
  the empty string, gives the empty array.\<close>

definition searchByQuery ::
  "(string \<Rightarrow> string \<Rightarrow> int) \<Rightarrow> geoData \<Rightarrow> jsval \<Rightarrow> searchOptions \<Rightarrow> searchResult list" where
  "searchByQuery localeCompare g q opts =
     (case q of
        JStr query \<Rightarrow>
          if query = [] then []
          else
            (let postal =
                   (if isPostalCode (trim query)
                    then (case searchByPostalCode g (trim query) of
                            None \<Rightarrow> []
                          | Some postalResult \<Rightarrow> [exactPostalResult postalResult])
                    else []);
                 searchResults = search g query (includeType opts);
                 results = postal @
                   map (withMatchType query)
                     (filter (\<lambda>r. minRelevance opts \<le> of_int (relevance r)) searchResults)
             in take (limit opts)
                  (sortResults localeCompare (removeDuplicates results) (sortBy opts)))
      | _ \<Rightarrow> [])"

text \<open>\<open>GeoSearch.searchDistricts(query, options)\<close> for a string; \<open>stats\<close> is the pair
  of \<open>postOfficeCount\<close> and \<open>hasMainOffice\<close>.\<close>

record districtSearchResult =
  ds_type :: string
  ds_name :: string
  ds_relevance :: int
  ds_matchType :: string
  ds_stats :: "(nat \<times> bool) option"

definition searchDistricts :: "geoData \<Rightarrow> string \<Rightarrow> nat \<Rightarrow> bool \<Rightarrow> districtSearchResult list" where
  "searchDistricts g query lmt includeStats =
     map (\<lambda>r.
            \<lparr>ds_type = ''district'', ds_name = r_name r, ds_relevance = relevance r,
             ds_matchType = determineMatchType query (r_name r) (r_postalCode r),
             ds_stats =
               (case getDistrictByName g (r_name r) of
                  None \<Rightarrow> None
                | Some d \<Rightarrow>
                    if includeStats
                    then Some (d_postOfficeCount d,
                               list_ex (\<lambda>po. po_type po = ''D.P.O.'' \<or> po_type po = ''G.P.O.'')
                                 (d_postOffices d))
                    else None)\<rparr>)
         (take lmt (search g query ''district''))"

text \<open>\<open>GeoSearch.getSuggestions(partialQuery, options)\<close> for a string; the \<open>Set\<close> keeps
  its elements in the order of their first insertion.\<close>

definition setAdd :: "string list \<Rightarrow> string \<Rightarrow> string list" where
  "setAdd s x = (if x \<in> set s then s else s @ [x])"

definition getSuggestions :: "geoData \<Rightarrow> string \<Rightarrow> nat \<Rightarrow> string \<Rightarrow> string list" where
  "getSuggestions g partialQuery lmt type =
     (if length partialQuery < 2 then []
      else
        (let normalizedQuery = toLowerCase partialQuery;
             fromDistricts =
               (if type = ''all'' \<or> type = ''district''
                then foldl (\<lambda>s d. if startsWith (toLowerCase (d_name d)) normalizedQuery
                                   then setAdd s (d_name d) else s) [] (getAllDistricts g)
                else []);
             suggestions =
               (if type = ''all'' \<or> type = ''postOffice''
                then foldl (\<lambda>s po. if startsWith (toLowerCase (po_name po)) normalizedQuery
                                    then setAdd s (po_name po) else s)
                       fromDistricts (getAllPostOffices g)
                else fromDistricts)
         in take lmt suggestions))"

section \<open>Sample inputs\<close>

text \<open>Two strings of 23 characters that differ in their last nine characters.\<close>

definition typoCandidate :: string where
  "typoCandidate = ''aaaaaaaaaaaaaabbbbbbbbb''"

definition typoQuery :: string where
  "typoQuery = ''aaaaaaaaaaaaaaccccccccc''"

text \<open>A small source: four records in three districts, one of them under a raw spelling
  that the correction table renames.\<close>

definition sampleRecords :: "rawRecord list" where
  "sampleRecords =
     [\<lparr>rawDistrict = ''Kathmandu'', rawPostOffice = ''Kathmandu'',
       rawPostalCode = ''44600'', rawType = ''G.P.O.''\<rparr>,
      \<lparr>rawDistrict = ''Kathmandu'', rawPostOffice = ''Kalimati'',
       rawPostalCode = ''44614'', rawType = ''A.P.O.''\<rparr>,
      \<lparr>rawDistrict = ''Chitawan'', rawPostOffice = ''Bharatpur'',
       rawPostalCode = ''44200'', rawType = ''D.P.O.''\<rparr>,
      \<lparr>rawDistrict = ''Kaski'', rawPostOffice = ''Pokhara'',
       rawPostalCode = ''33700'', rawType = ''W.R.P.D.''\<rparr>]"

definition sampleStore :: geoData where
  "sampleStore = foldl processEntry \<lparr>districts = [], postOffices = []\<rparr> sampleRecords"

text \<open>A source in which two records carry the same postal code.\<close>

definition duplicateRecords :: "rawRecord list" where
  "duplicateRecords =
     [\<lparr>rawDistrict = ''Kathmandu'', rawPostOffice = ''Kathmandu'',
       rawPostalCode = ''44600'', rawType = ''G.P.O.''\<rparr>,
      \<lparr>rawDistrict = ''Kathmandu'', rawPostOffice = ''Dillibazar'',
       rawPostalCode = ''44600'', rawType = ''A.P.O.''\<rparr>]"

definition duplicateStore :: geoData where
  "duplicateStore = foldl processEntry \<lparr>districts = [], postOffices = []\<rparr> duplicateRecords"

text \<open>A source in which the same district is spelled in two letter cases.\<close>

definition caseRecords :: "rawRecord list" where
  "caseRecords =
     [\<lparr>rawDistrict = ''kathmandu'', rawPostOffice = ''Kalimati'',
       rawPostalCode = ''44614'', rawType = ''A.P.O.''\<rparr>,
      \<lparr>rawDistrict = ''Kathmandu'', rawPostOffice = ''Kathmandu'',
       rawPostalCode = ''44600'', rawType = ''G.P.O.''\<rparr>]"

definition caseStore :: geoData where
  "caseStore = foldl processEntry \<lparr>districts = [], postOffices = []\<rparr> caseRecords"

text \<open>A \<open>localeCompare\<close> that orders strings by their code units.\<close>

fun codeUnitCompare :: "string \<Rightarrow> string \<Rightarrow> int" where
  "codeUnitCompare [] [] = 0"
| "codeUnitCompare [] (y # ys) = - 1"
| "codeUnitCompare (x # xs) [] = 1"
| "codeUnitCompare (x # xs) (y # ys) =
     (if (of_char x :: nat) < of_char y then - 1
      else if (of_char y :: nat) < of_char x then 1
      else codeUnitCompare xs ys)"

text \<open>The district that \<open>processData\<close> builds for the third sample record.\<close>

definition chitwan :: district where
  "chitwan =
     \<lparr>d_name = ''Chitwan'', d_postOfficeCount = 1,
      d_postOffices =
        [\<lparr>po_name = ''Bharatpur'', po_postalCode = ''44200'', po_type = ''D.P.O.'',
          po_district = ''Chitwan''\<rparr>]\<rparr>"

section \<open>JavaScript values\<close>

text \<open>\<open>typeof\<close>, truthiness, \<open>Array.isArray\<close> and the access to an own property. The
  properties read below (\<open>district\<close>, \<open>postalCode\<close>, \<open>postOffice\<close>, \<open>ward\<close>,
  \<open>municipality\<close>) are not inherited ones, and an array has none of them.\<close>

definition typeof :: "jsval \<Rightarrow> string" where
  "typeof v =
     (case v of
        JUndefined \<Rightarrow> ''undefined''
      | JNull \<Rightarrow> ''object''
      | JBool b \<Rightarrow> ''boolean''
      | JNum n \<Rightarrow> ''number''
      | JStr s \<Rightarrow> ''string''
      | JArr xs \<Rightarrow> ''object''
      | JObj ps \<Rightarrow> ''object'')"

definition truthy :: "jsval \<Rightarrow> bool" where
  "truthy v =
     (case v of
        JUndefined \<Rightarrow> False
      | JNull \<Rightarrow> False
      | JBool b \<Rightarrow> b
      | JNum n \<Rightarrow> n \<noteq> 0
      | JStr s \<Rightarrow> s \<noteq> []
      | JArr xs \<Rightarrow> True
      | JObj ps \<Rightarrow> True)"

definition isArray :: "jsval \<Rightarrow> bool" where
  "isArray v = (case v of JArr xs \<Rightarrow> True | _ \<Rightarrow> False)"

definition getProp :: "jsval \<Rightarrow> string \<Rightarrow> jsval" where
  "getProp v k =
     (case v of
        JObj ps \<Rightarrow> (case map_of ps k of None \<Rightarrow> JUndefined | Some x \<Rightarrow> x)
      | _ \<Rightarrow> JUndefined)"

fun joinWith :: "string \<Rightarrow> string list \<Rightarrow> string" where
  "joinWith sep [] = []"
| "joinWith sep [x] = x"
| "joinWith sep (x # y # ys) = x @ sep @ joinWith sep (y # ys)"

text \<open>
  The string that a template literal puts in place of \<open>${v}\<close>. The decimal form of a
  number is the business of the host; \<open>numberToString\<close> is a parameter of the model. An
  array joins its elements with commas, \<open>null\<close> and \<open>undefined\<close> elements being empty.
\<close>

fun toStr :: "(rat \<Rightarrow> string) \<Rightarrow> jsval \<Rightarrow> string"
  and elementStrs :: "(rat \<Rightarrow> string) \<Rightarrow> jsval list \<Rightarrow> string list" where
  "toStr numberToString JUndefined = ''undefined''"
| "toStr numberToString JNull = ''null''"
| "toStr numberToString (JBool b) = (if b then ''true'' else ''false'')"
| "toStr numberToString (JNum n) = numberToString n"
| "toStr numberToString (JStr s) = s"
| "toStr numberToString (JArr xs) = joinWith '','' (elementStrs numberToString xs)"
| "toStr numberToString (JObj ps) = ''[object Object]''"
| "elementStrs numberToString [] = []"
| "elementStrs numberToString (JUndefined # xs) = [] # elementStrs numberToString xs"
| "elementStrs numberToString (JNull # xs) = [] # elementStrs numberToString xs"
| "elementStrs numberToString (x # xs) =
     toStr numberToString x # elementStrs numberToString xs"

text \<open>The exceptions of the source: a \<open>TypeError\<close> of the runtime, or an \<open>Error\<close> thrown
  by the code with its message.\<close>

datatype jsError = TypeError string | Error string

section \<open>Validation Layer\<close>

record districtValidation =
  dv_isValid :: bool
  dv_error :: "string option"
  dv_district :: "district option"
  dv_suggestions :: "string list"

text \<open>\<open>LocationValidator.findSimilarDistricts(input)\<close>.\<close>

definition findSimilarDistricts :: "geoData \<Rightarrow> string \<Rightarrow> string list" where
  "findSimilarDistricts g input =
     map fst
       (take 3
          (jsSort (\<lambda>a b. snd b - snd a)
             (filter (\<lambda>item. 3 / 10 < snd item)
                (map (\<lambda>d. (d_name d,
                             calculateSimilarity (toLowerCase input) (toLowerCase (d_name d))))
                   (getAllDistricts g)))))"

text \<open>\<open>LocationValidator.validateDistrict(district)\<close>.\<close>

definition validateDistrict :: "geoData \<Rightarrow> jsval \<Rightarrow> districtValidation" where
  "validateDistrict g district =
     (case district of
        JStr name \<Rightarrow>
          if name = []
          then \<lparr>dv_isValid = False,
                dv_error = Some ''District name is required and must be a string'',
                dv_district = None, dv_suggestions = []\<rparr>
          else
            (case getDistrictByName g name of
               Some districtData \<Rightarrow>
                 \<lparr>dv_isValid = True, dv_error = None, dv_district = Some districtData,
                  dv_suggestions = []\<rparr>
             | None \<Rightarrow>
                 \<lparr>dv_isValid = False,
                  dv_error = Some (''District '' @ [CHR 0x27] @ name @ [CHR 0x27] @ '' not found''),
                  dv_district = None, dv_suggestions = findSimilarDistricts g name\<rparr>)
      | _ \<Rightarrow>
          \<lparr>dv_isValid = False,
           dv_error = Some ''District name is required and must be a string'',
           dv_district = None, dv_suggestions = []\<rparr>)"

record postalValidation =
  pv_isValid :: bool
  pv_error :: "string option"
  pv_postalInfo :: "postOffice option"

text \<open>
  \<open>LocationValidator.validatePostalCode(postalCode)\<close>. \<open>getPostOfficeByCode\<close> is an
  \<open>Array.prototype.find\<close>: it gives \<open>undefined\<close>, never \<open>null\<close>, for a code that is
  not in the store, so \<open>postalInfo !== null\<close> is true for every well-formed code.
\<close>

definition validatePostalCode :: "geoData \<Rightarrow> jsval \<Rightarrow> postalValidation" where
  "validatePostalCode g postalCode =
     (case postalCode of
        JStr code \<Rightarrow>
          if code = []
          then \<lparr>pv_isValid = False,
                pv_error = Some ''Postal code is required and must be a string'',
                pv_postalInfo = None\<rparr>
          else
            (let trimmed = trim code
             in if \<not> isPostalCode trimmed
                then \<lparr>pv_isValid = False,
                      pv_error = Some ''Nepal postal codes must be exactly 5 digits'',
                      pv_postalInfo = None\<rparr>
                else
                  (let postalInfo = getPostOfficeByCode g trimmed
                   in \<lparr>pv_isValid = True,
                       pv_error = (case postalInfo of
                                     Some po \<Rightarrow> None
                                   | None \<Rightarrow> Some ''Postal code does not exist''),
                       pv_postalInfo = postalInfo\<rparr>))
      | _ \<Rightarrow>
          \<lparr>pv_isValid = False,
           pv_error = Some ''Postal code is required and must be a string'',
           pv_postalInfo = None\<rparr>)"

text \<open>\<open>LocationValidator.findSimilarPostOffices(input, postOffices)\<close>; each post
  office is paired with its similarity.\<close>

definition findSimilarPostOffices :: "string \<Rightarrow> postOffice list \<Rightarrow> (postOffice \<times> rat) list" where
  "findSimilarPostOffices input pos =
     take 5
       (jsSort (\<lambda>a b. snd b - snd a)
          (filter (\<lambda>item. 3 / 10 < snd item)
             (map (\<lambda>po. (po, calculateSimilarity (toLowerCase input) (toLowerCase (po_name po))))
                pos)))"

record postOfficeValidation =
  ov_isValid :: bool
  ov_error :: "string option"
  ov_postOffice :: "postOffice option"
  ov_suggestions :: "string list"

text \<open>
  \<open>LocationValidator.validatePostOffice(postOffice, district)\<close>. A \<open>district\<close> that is
  true but not a string has no \<open>toLowerCase\<close>: the filter throws a \<open>TypeError\<close> at the
  first post office it visits.
\<close>

definition validatePostOffice ::
  "(rat \<Rightarrow> string) \<Rightarrow> geoData \<Rightarrow> jsval \<Rightarrow> jsval \<Rightarrow> jsError + postOfficeValidation" where
  "validatePostOffice numberToString g postOffice district =
     (case postOffice of
        JStr name \<Rightarrow>
          if name = []
          then Inr \<lparr>ov_isValid = False,
                    ov_error = Some ''Post office name is required and must be a string'',
                    ov_postOffice = None, ov_suggestions = []\<rparr>
          else
            (let allPostOffices = getAllPostOffices g;
                 filtered =
                   (if truthy district
                    then (case district of
                            JStr dname \<Rightarrow>
                              Inr (filter (\<lambda>po. toLowerCase (po_district po) = toLowerCase dname)
                                     allPostOffices)
                          | _ \<Rightarrow>
                              if allPostOffices = [] then Inr []
                              else Inl (TypeError ''district.toLowerCase is not a function''))
                    else Inr allPostOffices)
             in case filtered of
                  Inl e \<Rightarrow> Inl e
                | Inr pos \<Rightarrow>
                    (case find (\<lambda>po. toLowerCase (po_name po) = toLowerCase name) pos of
                       Some exactMatch \<Rightarrow>
                         Inr \<lparr>ov_isValid = True, ov_error = None,
                              ov_postOffice = Some exactMatch, ov_suggestions = []\<rparr>
                     | None \<Rightarrow>
                         Inr \<lparr>ov_isValid = False,
                              ov_error = Some (''Post office '' @ [CHR 0x27] @ name @ [CHR 0x27] @
                                 '' not found'' @
                                 (if truthy district
                                  then '' in '' @ toStr numberToString district else [])),
                              ov_postOffice = None,
                              ov_suggestions =
                                map (\<lambda>item. po_name (fst item))
                                  (take 3 (findSimilarPostOffices name pos))\<rparr>))
      | _ \<Rightarrow>
          Inr \<lparr>ov_isValid = False,
               ov_error = Some ''Post office name is required and must be a string'',
               ov_postOffice = None, ov_suggestions = []\<rparr>)"

text \<open>
  \<open>LocationValidator.calculateCompleteness(address)\<close>. The weights 0.3, 0.2, 0.2, 0.15
  and 0.15 are kept in hundredths, so that \<open>score\<close> is the rounded percentage of the
  source and \<open>isComplete\<close> compares it with 80.
\<close>

record completeness =
  score :: nat
  percentage :: string
  present :: "string list"
  missing :: "string list"
  isComplete :: bool

definition fieldWeights :: "(string \<times> nat) list" where
  "fieldWeights =
     [(''district'', 30), (''municipality'', 20), (''ward'', 20), (''postOffice'', 15),
      (''postalCode'', 15)]"

definition fieldPresent :: "jsval \<Rightarrow> string \<Rightarrow> bool" where
  "fieldPresent address field =
     (getProp address field \<noteq> JUndefined \<and> getProp address field \<noteq> JNull \<and>
      getProp address field \<noteq> JStr [])"

definition calculateCompleteness :: "(rat \<Rightarrow> string) \<Rightarrow> jsval \<Rightarrow> completeness" where
  "calculateCompleteness numberToString address =
     (let total = sum_list (map snd (filter (\<lambda>fw. fieldPresent address (fst fw)) fieldWeights))
      in \<lparr>score = total,
          percentage = numberToString (of_nat total) @ ''%'',
          present = filter (fieldPresent address) (map fst fieldWeights),
          missing = filter (\<lambda>field. \<not> fieldPresent address field) (map fst fieldWeights),
          isComplete = (80 \<le> total)\<rparr>)"

text \<open>\<open>LocationValidator.getRecommendation(address, errors, warnings)\<close>.\<close>

definition getRecommendation :: "jsval \<Rightarrow> string list \<Rightarrow> string list \<Rightarrow> string list" where
  "getRecommendation address errors warnings =
     (let recommendations =
            (if errors \<noteq> [] then [''Fix validation errors before using this address''] else []) @
            (if \<not> truthy (getProp address ''district'')
             then [''Add district name for better address identification''] else []) @
            (if \<not> truthy (getProp address ''postalCode'')
             then [''Include postal code for accurate mail delivery''] else []) @
            (if \<not> truthy (getProp address ''municipality'') \<and>
                \<not> truthy (getProp address ''postOffice'')
             then [''Add municipality or post office for precise location''] else []) @
            (if \<not> truthy (getProp address ''ward'')
             then [''Include ward number for local administrative purposes''] else []) @
            (if warnings \<noteq> [] \<and> errors = []
             then [''Address is valid but could be more complete''] else [])
      in if recommendations = [] then [''Address is complete and valid''] else recommendations)"

record validationResult =
  isValid :: bool
  errors :: "string list"
  warnings :: "string list"
  suggestions :: "string list"
  completenessInfo :: "completeness option"
  recommendation :: "string list option"

text \<open>The messages of \<open>validateAddress\<close> are collected step by step; a step gives the
  errors, warnings and suggestions it pushes, or the exception it throws.\<close>

type_synonym messages = "string list \<times> string list \<times> string list"

definition districtStep :: "(rat \<Rightarrow> string) \<Rightarrow> geoData \<Rightarrow> jsval \<Rightarrow> messages" where
  "districtStep numberToString g address =
     (let district = getProp address ''district''
      in if truthy district
         then (let districtResult = validateDistrict g district
               in if \<not> dv_isValid districtResult
                  then ([''Invalid district: '' @ toStr numberToString district], [],
                        (if dv_suggestions districtResult \<noteq> []
                         then [''Did you mean: '' @ joinWith '', '' (dv_suggestions districtResult)
                                 @ ''?'']
                         else []))
                  else ([], [], []))
         else ([], [''District not specified''], []))"

definition postalCodeStep ::
  "(rat \<Rightarrow> string) \<Rightarrow> geoData \<Rightarrow> jsval \<Rightarrow> jsError + messages" where
  "postalCodeStep numberToString g address =
     (let district = getProp address ''district'';
          postalCode = getProp address ''postalCode''
      in if truthy postalCode
         then (let postalResult = validatePostalCode g postalCode
               in if \<not> pv_isValid postalResult
                  then Inr ([''Invalid postal code: '' @ toStr numberToString postalCode], [], [])
                  else if truthy district
                  then (case (case postalCode of
                                JStr code \<Rightarrow> getPostOfficeByCode g code
                              | _ \<Rightarrow> None) of
                          None \<Rightarrow> Inr ([], [], [])
                        | Some postalInfo \<Rightarrow>
                            (case district of
                               JStr dname \<Rightarrow>
                                 if toLowerCase (po_district postalInfo) \<noteq> toLowerCase dname
                                 then Inr ([''Postal code '' @ toStr numberToString postalCode @
                                              '' does not belong to district '' @ dname],
                                           [],
                                           [''Postal code '' @ toStr numberToString postalCode @
                                              '' belongs to '' @ po_district postalInfo])
                                 else Inr ([], [], [])
                             | _ \<Rightarrow>
                                 Inl (TypeError
                                        ''address.district.toLowerCase is not a function'')))
                  else Inr ([], [], []))
         else Inr ([], [], []))"

definition postOfficeStep ::
  "(rat \<Rightarrow> string) \<Rightarrow> geoData \<Rightarrow> jsval \<Rightarrow> jsError + messages" where
  "postOfficeStep numberToString g address =
     (let postOffice = getProp address ''postOffice''
      in if truthy postOffice
         then (case validatePostOffice numberToString g postOffice (getProp address ''district'') of
                 Inl e \<Rightarrow> Inl e
               | Inr postOfficeResult \<Rightarrow>
                   if \<not> ov_isValid postOfficeResult
                   then Inr ([''Invalid post office: '' @ toStr numberToString postOffice], [],
                             (if ov_suggestions postOfficeResult \<noteq> []
                              then [''Similar post offices: '' @
                                      joinWith '', '' (ov_suggestions postOfficeResult)]
                              else []))
                   else Inr ([], [], []))
         else Inr ([], [], []))"

text \<open>\<open>Number.isInteger\<close> and the two comparisons of the ward; a ward that is not a
  number is not an integer.\<close>

definition wardStep :: "jsval \<Rightarrow> messages" where
  "wardStep address =
     (let ward = getProp address ''ward''
      in if ward \<noteq> JUndefined
         then (if (case ward of
                     JNum n \<Rightarrow> n \<noteq> of_int \<lfloor>n\<rfloor> \<or> n < 1 \<or> 35 < n
                   | _ \<Rightarrow> True)
               then ([''Ward number must be an integer between 1 and 35''], [], [])
               else ([], [], []))
         else ([], [], []))"

definition municipalityStep :: "jsval \<Rightarrow> messages" where
  "municipalityStep address =
     (let municipality = getProp address ''municipality''
      in if truthy municipality
         then (if (case municipality of
                     JStr m \<Rightarrow> length (trim m) < 2
                   | _ \<Rightarrow> True)
               then ([''Municipality name must be a valid string''], [], [])
               else ([], [], []))
         else ([], [], []))"

definition addMessages :: "messages \<Rightarrow> messages \<Rightarrow> messages" where
  "addMessages a b =
     (fst a @ fst b, fst (snd a) @ fst (snd b), snd (snd a) @ snd (snd b))"

text \<open>\<open>LocationValidator.validateAddress(address)\<close>.\<close>

definition validateAddress ::
  "(rat \<Rightarrow> string) \<Rightarrow> geoData \<Rightarrow> jsval \<Rightarrow> jsError + validationResult" where
  "validateAddress numberToString g address =
     (if \<not> truthy address \<or> typeof address \<noteq> ''object''
      then Inr \<lparr>isValid = False, errors = [''Address must be a valid object''], warnings = [],
                suggestions = [], completenessInfo = None, recommendation = None\<rparr>
      else
        (case postalCodeStep numberToString g address of
           Inl e \<Rightarrow> Inl e
         | Inr postalMessages \<Rightarrow>
             (case postOfficeStep numberToString g address of
                Inl e \<Rightarrow> Inl e
              | Inr postOfficeMessages \<Rightarrow>
                  (let collected =
                         addMessages (districtStep numberToString g address)
                           (addMessages postalMessages
                              (addMessages postOfficeMessages
                                 (addMessages (wardStep address) (municipalityStep address))));
                       errs = fst collected;
                       warns = fst (snd collected);
                       suggs = snd (snd collected)
                   in Inr \<lparr>isValid = (errs = []), errors = errs, warnings = warns,
                           suggestions = suggs,
                           completenessInfo = Some (calculateCompleteness numberToString address),
                           recommendation = Some (getRecommendation address errs warns)\<rparr>))))"

record batchEntry =
  index :: nat
  address :: jsval
  validation :: validationResult

fun validateFrom ::
  "(rat \<Rightarrow> string) \<Rightarrow> geoData \<Rightarrow> nat \<Rightarrow> jsval list \<Rightarrow> jsError + batchEntry list" where
  "validateFrom numberToString g i [] = Inr []"
| "validateFrom numberToString g i (a # as) =
     (case validateAddress numberToString g a of
        Inl e \<Rightarrow> Inl e
      | Inr v \<Rightarrow>
          (case validateFrom numberToString g (Suc i) as of
             Inl e \<Rightarrow> Inl e
           | Inr rest \<Rightarrow> Inr (\<lparr>index = i, address = a, validation = v\<rparr> # rest)))"

text \<open>\<open>LocationValidator.batchValidate(addresses)\<close>.\<close>

definition batchValidate ::
  "(rat \<Rightarrow> string) \<Rightarrow> geoData \<Rightarrow> jsval \<Rightarrow> jsError + batchEntry list" where
  "batchValidate numberToString g addresses =
     (case addresses of
        JArr as \<Rightarrow> validateFrom numberToString g 0 as
      | _ \<Rightarrow> Inl (Error ''Addresses must be an array''))"

text \<open>A \<open>numberToString\<close> for the samples: the decimal digits of a natural number, which is
  what the host prints for an integer below \<open>10^21\<close>.\<close>

fun digitsOf :: "nat \<Rightarrow> nat \<Rightarrow> string" where
  "digitsOf 0 n = []"
| "digitsOf (Suc fuel) n =
     (if n < 10 then [char_of (48 + n)]
      else digitsOf fuel (n div 10) @ [char_of (48 + n mod 10)])"

definition decimalString :: "rat \<Rightarrow> string" where
  "decimalString r =
     (if r < 0 then ''-'' @ digitsOf 21 (nat \<lfloor>- r\<rfloor>) else digitsOf 21 (nat \<lfloor>r\<rfloor>))"

section \<open>The matrix computes the edit distance\<close>

lemma editDistance_Nil2: "editDistance xs [] = length xs"
  by (cases xs) simp_all

lemma editDistance_sym: "editDistance xs ys = editDistance ys xs"
proof (induction xs ys rule: editDistance.induct)
  case (1 ys)
  show ?case by (simp add: editDistance_Nil2)
next
  case (2 x xs)
  show ?case by simp
next
  case (3 x xs y ys)
  then show ?case by (auto simp: min.commute min.left_commute)
qed

lemma editDistance_le_max: "editDistance xs ys \<le> max (length xs) (length ys)"
  by (induction xs ys rule: editDistance.induct) auto

lemma editDistance_refl: "editDistance xs xs = 0"
  by (induction xs) simp_all

lemma editDistance_zero_iff: "editDistance xs ys = 0 \<longleftrightarrow> xs = ys"
proof
  assume "editDistance xs ys = 0"
  then show "xs = ys"
  proof (induction xs ys rule: editDistance.induct)
    case (1 ys)
    then show ?case by simp
  next
    case (2 x xs)
    then show ?case by simp
  next
    case (3 x xs y ys)
    then show ?case by (auto split: if_splits)
  qed
next
  assume "xs = ys"
  then show "editDistance xs ys = 0" by (simp add: editDistance_refl)
qed

lemma last_tab: "last (f b # tab f b xs) = f (rev xs @ b)"
  by (induction xs arbitrary: b) simp_all

lemma tab_editDistance_Nil:
  "tab (editDistance []) b xs = [Suc (length b)..<Suc (length b + length xs)]"
proof (induction xs arbitrary: b)
  case Nil
  show ?case by simp
next
  case (Cons x xs)
  have "[Suc (length b)..<Suc (length b + length (x # xs))] =
        Suc (length b) # [Suc (Suc (length b))..<Suc (length b + length (x # xs))]"
    by (simp add: upt_rec)
  then show ?case using Cons.IH [of "x # b"] by simp
qed

lemma first_row: "[0..<Suc (length str1)] = editDistance [] [] # tab (editDistance []) [] str1"
proof -
  have "[0..<Suc (length str1)] = 0 # [Suc 0..<Suc (length str1)]"
    by (simp add: upt_rec)
  then show ?thesis by (simp add: tab_editDistance_Nil)
qed

lemma rowCells_tab:
  "rowCells c xs (editDistance a b) (tab (editDistance a) b xs) (editDistance (c # a) b) =
   tab (editDistance (c # a)) b xs"
proof (induction xs arbitrary: b)
  case Nil
  show ?case by simp
next
  case (Cons x xs)
  show ?case using Cons.IH [of "x # b"] by (simp add: Let_def)
qed

lemma matrixRow_tab:
  "matrixRow str1 (Suc (length a)) c (editDistance a [] # tab (editDistance a) [] str1) =
   editDistance (c # a) [] # tab (editDistance (c # a)) [] str1"
  using rowCells_tab [of c str1 a "[]"] by (simp add: editDistance_Nil2)

lemma matrixRows_tab:
  "matrixRows str1 (length a) cs (editDistance a [] # tab (editDistance a) [] str1) =
   editDistance (rev cs @ a) [] # tab (editDistance (rev cs @ a)) [] str1"
proof (induction cs arbitrary: a)
  case Nil
  show ?case by simp
next
  case (Cons c cs)
  let ?row = "editDistance a [] # tab (editDistance a) [] str1"
  have "matrixRows str1 (length a) (c # cs) ?row =
        matrixRows str1 (length (c # a)) cs (matrixRow str1 (Suc (length a)) c ?row)"
    by (simp del: matrixRow.simps)
  also have "\<dots> = matrixRows str1 (length (c # a)) cs
                      (editDistance (c # a) [] # tab (editDistance (c # a)) [] str1)"
    by (simp only: matrixRow_tab)
  also have "\<dots> = editDistance (rev cs @ c # a) [] # tab (editDistance (rev cs @ c # a)) [] str1"
    by (rule Cons.IH)
  finally show ?case by simp
qed

lemma matrix_last_cell:
  "last (matrixRows str1 0 str2 [0..<Suc (length str1)]) = editDistance (rev str2) (rev str1)"
proof -
  have "matrixRows str1 0 str2 [0..<Suc (length str1)] =
        editDistance (rev str2) [] # tab (editDistance (rev str2)) [] str1"
    by (subst first_row) (use matrixRows_tab [of str1 "[]" str2] in simp)
  then show ?thesis by (simp only: last_tab append_Nil2)
qed

lemma levenshteinDistance_editDistance:
  "levenshteinDistance str1 str2 = editDistance (rev str2) (rev str1)"
  by (simp add: levenshteinDistance_def matrix_last_cell del: upt_Suc)

lemma calculateSimilarity_editDistance:
  "calculateSimilarity str1 str2 =
     (if max (length str1) (length str2) = 0 then 1
      else (of_nat (max (length str1) (length str2)) - of_nat (editDistance (rev str2) (rev str1)))
           / of_nat (max (length str1) (length str2)))"
  by (simp add: calculateSimilarity_def matrix_last_cell Let_def del: upt_Suc)

section \<open>Validation Layer: similarity\<close>

text \<open>
  Claim C7. The similarity function of the Validation Layer is symmetric: for every pair
  of strings \<open>a\<close> and \<open>b\<close>, \<open>calculateSimilarity a b\<close> equals \<open>calculateSimilarity b a\<close>.
\<close>

theorem calculateSimilarity_symmetric:
  "calculateSimilarity a b = calculateSimilarity b a"
proof -
  have "editDistance (rev b) (rev a) = editDistance (rev a) (rev b)"
    by (rule editDistance_sym)
  then show ?thesis
    by (simp add: calculateSimilarity_editDistance max.commute)
qed

text \<open>
  Claim C10. For every pair of strings the similarity lies between 0 and 1, and it is
  exactly 1 if and only if the two strings are equal (two empty strings included).
\<close>

theorem calculateSimilarity_range:
  "0 \<le> calculateSimilarity a b \<and> calculateSimilarity a b \<le> 1 \<and>
   (calculateSimilarity a b = 1 \<longleftrightarrow> a = b)"
proof (cases "max (length a) (length b) = 0")
  case True
  then show ?thesis by (simp add: calculateSimilarity_editDistance)
next
  case False
  define m where "m = max (length a) (length b)"
  define d where "d = editDistance (rev b) (rev a)"
  have m: "0 < m" using False unfolding m_def by linarith
  have "d \<le> max (length (rev b)) (length (rev a))"
    unfolding d_def by (rule editDistance_le_max)
  then have dm: "d \<le> m" by (simp add: m_def max.commute)
  have sim: "calculateSimilarity a b = (of_nat m - of_nat d) / of_nat m"
    using False by (simp add: calculateSimilarity_editDistance m_def d_def)
  have nonneg: "0 \<le> calculateSimilarity a b"
    using dm m by (simp add: sim)
  have le1: "calculateSimilarity a b \<le> 1"
    using m by (simp add: sim)
  have "calculateSimilarity a b = 1 \<longleftrightarrow> d = 0"
    using m by (simp add: sim field_simps)
  also have "\<dots> \<longleftrightarrow> rev b = rev a"
    by (simp add: d_def editDistance_zero_iff)
  also have "\<dots> \<longleftrightarrow> a = b" by auto
  finally show ?thesis using nonneg le1 by simp
qed

section \<open>Facts about strings\<close>

lemma of_char_toLowerChar:
  "(of_char (toLowerChar c) :: nat) =
     (if (65 \<le> (of_char c :: nat) \<and> (of_char c :: nat) \<le> 90) \<or>
         (192 \<le> (of_char c :: nat) \<and> (of_char c :: nat) \<le> 222 \<and> (of_char c :: nat) \<noteq> 215)
      then of_char c + 32 else of_char c)"
  by (auto simp: toLowerChar_def Let_def of_char_of)

lemma char_eq_iff_of_char: "(c = d) = ((of_char c :: nat) = of_char d)"
  by (metis char_of_char)

lemma toLowerChar_idem: "toLowerChar (toLowerChar c) = toLowerChar c"
  by (simp add: char_eq_iff_of_char [of "toLowerChar (toLowerChar c)"] of_char_toLowerChar)

lemma toLowerChar_space: "(toLowerChar c = CHR '' '') = (c = CHR '' '')"
  by (simp add: char_eq_iff_of_char [of _ "CHR '' ''"] of_char_toLowerChar)

lemma isWhiteSpace_toLowerChar: "isWhiteSpace (toLowerChar c) = isWhiteSpace c"
  by (auto simp add: isWhiteSpace_def of_char_toLowerChar)

lemma toLowerCase_idem: "toLowerCase (toLowerCase s) = toLowerCase s"
  by (simp add: toLowerCase_def toLowerChar_idem)

lemma length_toLowerCase: "length (toLowerCase s) = length s"
  by (simp add: toLowerCase_def)

lemma toLowerCase_Nil_iff: "(toLowerCase s = []) = (s = [])"
  by (simp add: toLowerCase_def)

lemma spaces_toLowerCase:
  "filter (\<lambda>c. c = CHR '' '') (toLowerCase s) = filter (\<lambda>c. c = CHR '' '') s"
  by (induction s) (auto simp: toLowerCase_def toLowerChar_space)

lemma trim_toLowerCase: "trim (toLowerCase s) = toLowerCase (trim s)"
proof -
  have comp: "isWhiteSpace \<circ> toLowerChar = isWhiteSpace"
    by (rule ext) (simp add: isWhiteSpace_toLowerChar)
  show ?thesis
    by (simp add: trim_def toLowerCase_def dropWhile_map rev_map comp)
qed

lemma startsWith_Nil: "startsWith s []"
  by (simp add: startsWith_def)

lemma length_splitOn: "length (splitOn P s) = Suc (length (filter P s))"
  by (induction s) (auto split: list.splits)

section \<open>Similarity Engine: range of the relevance\<close>

lemma token_score_bounds:
  "0 \<le> acc \<Longrightarrow>
   0 \<le> foldl (\<lambda>score word. if includesStr t word then score + 20 else score) acc ws \<and>
   foldl (\<lambda>score word. if includesStr t word then score + 20 else score) acc ws
     \<le> acc + 20 * int (length ws)"
proof (induction ws arbitrary: acc)
  case Nil
  then show ?case by simp
next
  case (Cons w ws)
  show ?case
  proof (cases "includesStr t w")
    case True
    have "0 \<le> acc + 20" using Cons.prems by simp
    from Cons.IH [OF this] True show ?thesis by simp
  next
    case False
    from Cons.IH [OF Cons.prems] False show ?thesis by simp
  qed
qed

lemma levenshteinDistance_le_max:
  "levenshteinDistance a b \<le> max (length a) (length b)"
  using editDistance_le_max [of "rev b" "rev a"]
  by (simp add: levenshteinDistance_editDistance max.commute)

lemma fuzzySimilarity_le_1: "fuzzySimilarity a b \<le> 1"
  by (simp add: fuzzySimilarity_def)

lemma mathRound_fuzzy_bounds:
  assumes "6 / 10 < x" and "x \<le> 1"
  shows "30 \<le> mathRound (x * 50) \<and> mathRound (x * 50) \<le> 50"
proof -
  have "30 \<le> x * 50 + 1 / 2" using assms(1) by simp
  then have lo: "30 \<le> \<lfloor>x * 50 + 1 / 2\<rfloor>" by linarith
  have "x * 50 + 1 / 2 < 51" using assms(2) by simp
  then have hi: "\<lfloor>x * 50 + 1 / 2\<rfloor> \<le> 50" by linarith
  from lo hi show ?thesis by (simp add: mathRound_def)
qed

lemma calculateFuzzyScore_bounds:
  "0 \<le> calculateFuzzyScore t q \<and> calculateFuzzyScore t q \<le> 75"
  using mathRound_fuzzy_bounds [OF _ fuzzySimilarity_le_1, of t q]
  by (auto simp: calculateFuzzyScore_def)

lemma calculateRelevance_general_bounds:
  "0 \<le> calculateRelevance candidate query \<and>
   calculateRelevance candidate query
     \<le> max 100 (20 * (int (length (filter (\<lambda>c. c = CHR '' '') query)) + 1))"
proof -
  let ?t = "toLowerCase candidate" and ?q = "toLowerCase query"
  let ?ws = "splitOn (\<lambda>c. c = CHR '' '') ?q"
  let ?tok = "foldl (\<lambda>score word. if includesStr ?t word then score + 20 else score) (0::int) ?ws"
  have len: "int (length ?ws) = int (length (filter (\<lambda>c. c = CHR '' '') query)) + 1"
    by (simp add: length_splitOn spaces_toLowerCase)
  have tok: "0 \<le> ?tok \<and> ?tok \<le> 20 * (int (length (filter (\<lambda>c. c = CHR '' '') query)) + 1)"
    using token_score_bounds [of 0 ?t ?ws] len by simp
  have fz: "0 \<le> calculateFuzzyScore ?t ?q \<and> calculateFuzzyScore ?t ?q \<le> 75"
    by (rule calculateFuzzyScore_bounds)
  show ?thesis
    using tok fz by (auto simp: calculateRelevance_def Let_def)
qed

text \<open>
  Claim C1, as the code has it. The relevance is a non-negative integer. It stays within
  100 whenever the query has at most four spaces, that is at most five tokens; in general
  the token-overlap fallback adds 20 for every token of the query that the candidate
  contains, without a cap, so the bound is the larger of 100 and 20 times the number
  of tokens.
\<close>

theorem calculateRelevance_bounds:
  "0 \<le> calculateRelevance candidate query \<and>
   calculateRelevance candidate query
     \<le> max 100 (20 * (int (length (filter (\<lambda>c. c = CHR '' '') query)) + 1)) \<and>
   (length (filter (\<lambda>c. c = CHR '' '') query) \<le> 4 \<longrightarrow> calculateRelevance candidate query \<le> 100)"
  using calculateRelevance_general_bounds [of candidate query] by auto

theorem calculateRelevance_bounds_witness:
  "length (filter (\<lambda>c. c = CHR '' '') ''new road'') \<le> 4 \<and>
   0 \<le> calculateRelevance ''Kathmandu'' ''new road'' \<and>
   calculateRelevance ''Kathmandu'' ''new road'' \<le> 100"
  using calculateRelevance_bounds [of "''Kathmandu''" "''new road''"] by simp

text \<open>The relevance of the candidate \<open>a\<close> for a query of six tokens \<open>a\<close> is 120:
  none of the rules before the fallback applies, and each token adds 20.\<close>

theorem calculateRelevance_above_100:
  "calculateRelevance ''a'' ''a a a a a a'' = 120 \<and>
   \<not> calculateRelevance ''a'' ''a a a a a a'' \<le> 100"
  by code_simp

section \<open>Similarity Engine: the edit-distance rule\<close>

text \<open>
  Claim C6, as the code has it. When rules 1 to 5 of the cascade do not apply (no exact
  match, no prefix, no substring, no abbreviation, no acronym, all on the lower-cased
  strings) and the similarity \<open>1 - d / max (len candidate) (len query)\<close> is strictly
  greater than 0.6, the relevance is \<open>round (similarity * 50)\<close> and lies in the closed
  interval from 30 to 50.
\<close>

theorem calculateRelevance_fuzzy:
  assumes "toLowerCase candidate \<noteq> toLowerCase query"
    and "\<not> startsWith (toLowerCase candidate) (toLowerCase query)"
    and "\<not> includesStr (toLowerCase candidate) (toLowerCase query)"
    and "\<not> abbreviationMatch (toLowerCase candidate) (toLowerCase query)"
    and "\<not> acronymMatch (toLowerCase candidate) (toLowerCase query)"
    and "6 / 10 < fuzzySimilarity (toLowerCase candidate) (toLowerCase query)"
  shows "calculateRelevance candidate query =
           mathRound (fuzzySimilarity (toLowerCase candidate) (toLowerCase query) * 50) \<and>
         30 \<le> calculateRelevance candidate query \<and> calculateRelevance candidate query \<le> 50"
proof -
  let ?t = "toLowerCase candidate" and ?q = "toLowerCase query"
  have rng: "30 \<le> mathRound (fuzzySimilarity ?t ?q * 50) \<and>
             mathRound (fuzzySimilarity ?t ?q * 50) \<le> 50"
    using assms(6) fuzzySimilarity_le_1 by (rule mathRound_fuzzy_bounds)
  have "?t \<noteq> [] \<or> ?q \<noteq> []" using assms(1) by auto
  then have len: "\<not> max (length ?t) (length ?q) = 0" by auto
  have fz: "calculateFuzzyScore ?t ?q = mathRound (fuzzySimilarity ?t ?q * 50)"
    by (simp only: calculateFuzzyScore_def assms(4,5,6) len if_False if_True)
  have "calculateRelevance candidate query = calculateFuzzyScore ?t ?q"
    using assms(1,2,3) rng by (simp add: calculateRelevance_def Let_def fz)
  then show ?thesis using rng by (simp add: fz)
qed

theorem calculateRelevance_fuzzy_witness:
  "toLowerCase ''Kathmandu'' \<noteq> toLowerCase ''kathmandoo'' \<and>
   \<not> startsWith (toLowerCase ''Kathmandu'') (toLowerCase ''kathmandoo'') \<and>
   \<not> includesStr (toLowerCase ''Kathmandu'') (toLowerCase ''kathmandoo'') \<and>
   \<not> abbreviationMatch (toLowerCase ''Kathmandu'') (toLowerCase ''kathmandoo'') \<and>
   \<not> acronymMatch (toLowerCase ''Kathmandu'') (toLowerCase ''kathmandoo'') \<and>
   6 / 10 < fuzzySimilarity (toLowerCase ''Kathmandu'') (toLowerCase ''kathmandoo'') \<and>
   calculateRelevance ''Kathmandu'' ''kathmandoo'' =
     mathRound (fuzzySimilarity (toLowerCase ''Kathmandu'') (toLowerCase ''kathmandoo'') * 50) \<and>
   30 \<le> calculateRelevance ''Kathmandu'' ''kathmandoo'' \<and>
   calculateRelevance ''Kathmandu'' ''kathmandoo'' \<le> 50"
proof -
  have h1: "toLowerCase ''Kathmandu'' \<noteq> toLowerCase ''kathmandoo''" by code_simp
  have h2: "\<not> startsWith (toLowerCase ''Kathmandu'') (toLowerCase ''kathmandoo'')" by code_simp
  have h3: "\<not> includesStr (toLowerCase ''Kathmandu'') (toLowerCase ''kathmandoo'')" by code_simp
  have h4: "\<not> abbreviationMatch (toLowerCase ''Kathmandu'') (toLowerCase ''kathmandoo'')"
    by code_simp
  have h5: "\<not> acronymMatch (toLowerCase ''Kathmandu'') (toLowerCase ''kathmandoo'')"
    by code_simp
  have h6: "6 / 10 < fuzzySimilarity (toLowerCase ''Kathmandu'') (toLowerCase ''kathmandoo'')"
    by code_simp
  show ?thesis
    using calculateRelevance_fuzzy [OF h1 h2 h3 h4 h5 h6] h1 h2 h3 h4 h5 h6 by blast
qed

text \<open>The lower end is reached: the two sample strings have distance 9 and length 23,
  the similarity 14/23 is greater than 0.6, and \<open>round (50 * 14 / 23)\<close> is 30.\<close>

theorem calculateRelevance_fuzzy_30:
  "toLowerCase typoCandidate \<noteq> toLowerCase typoQuery \<and>
   \<not> startsWith (toLowerCase typoCandidate) (toLowerCase typoQuery) \<and>
   \<not> includesStr (toLowerCase typoCandidate) (toLowerCase typoQuery) \<and>
   \<not> abbreviationMatch (toLowerCase typoCandidate) (toLowerCase typoQuery) \<and>
   \<not> acronymMatch (toLowerCase typoCandidate) (toLowerCase typoQuery) \<and>
   6 / 10 < fuzzySimilarity (toLowerCase typoCandidate) (toLowerCase typoQuery) \<and>
   fuzzySimilarity (toLowerCase typoCandidate) (toLowerCase typoQuery) = 14 / 23 \<and>
   calculateRelevance typoCandidate typoQuery = 30 \<and>
   \<not> 30 < calculateRelevance typoCandidate typoQuery"
  by code_simp

section \<open>Facts about the stable sort\<close>

lemma set_insertSorted: "set (insertSorted cmp x ys) = insert x (set ys)"
  by (induction ys) auto

lemma set_jsSort: "set (jsSort cmp xs) = set xs"
  by (induction xs) (simp_all add: jsSort_def set_insertSorted)

lemma jsSort_Cons: "jsSort cmp (x # xs) = insertSorted cmp x (jsSort cmp xs)"
  by (simp add: jsSort_def)

lemma jsSort_Nil: "jsSort cmp [] = []"
  by (simp add: jsSort_def)

lemma insertSorted_first:
  "(\<forall>y\<in>set ys. cmp x y \<le> 0) \<Longrightarrow> insertSorted cmp x ys = x # ys"
  by (cases ys) simp_all

lemma jsSort_first:
  assumes "\<forall>y\<in>set xs. cmp x y \<le> 0"
  shows "jsSort cmp (x # xs) = x # jsSort cmp xs"
  using assms by (simp add: jsSort_Cons insertSorted_first set_jsSort)

lemma jsSort_ordered:
  "(\<forall>x\<in>set xs. \<forall>y\<in>set xs. cmp x y \<le> 0) \<Longrightarrow> jsSort cmp xs = xs"
proof (induction xs)
  case Nil
  show ?case by (simp add: jsSort_Nil)
next
  case (Cons a xs)
  then have "jsSort cmp xs = xs" by simp
  moreover have "\<forall>y\<in>set xs. cmp a y \<le> 0" using Cons.prems by simp
  ultimately show ?case by (simp add: jsSort_first)
qed

lemma jsSort_unique_best:
  assumes "x \<in> set xs" and "cmp x x \<le> 0"
    and "\<forall>y\<in>set xs. y \<noteq> x \<longrightarrow> cmp x y \<le> 0 \<and> 0 < cmp y x"
  shows "\<exists>rest. jsSort cmp xs = x # rest"
  using assms
proof (induction xs)
  case Nil
  then show ?case by simp
next
  case (Cons a xs)
  show ?case
  proof (cases "a = x")
    case True
    have "\<forall>y\<in>set xs. cmp x y \<le> 0" using Cons.prems by auto
    then show ?thesis using True by (simp add: jsSort_first)
  next
    case False
    then have "x \<in> set xs" using Cons.prems by simp
    moreover have "\<forall>y\<in>set xs. y \<noteq> x \<longrightarrow> cmp x y \<le> 0 \<and> 0 < cmp y x"
      using Cons.prems by simp
    ultimately obtain rest where rest: "jsSort cmp xs = x # rest"
      using Cons.IH Cons.prems(2) by blast
    have "0 < cmp a x" using Cons.prems False by simp
    then have "\<not> cmp a x \<le> 0" by simp
    then show ?thesis by (simp add: jsSort_Cons rest)
  qed
qed

section \<open>The empty query\<close>

lemma trim_Nil: "trim [] = []"
  by (simp add: trim_def)

lemma calculateRelevance_empty: "candidate \<noteq> [] \<Longrightarrow> calculateRelevance candidate [] = 80"
  by (simp add: calculateRelevance_def toLowerCase_def startsWith_def)

lemma map_filter_all_Some:
  "(\<forall>x\<in>set xs. f x = Some (h x)) \<Longrightarrow> List.map_filter f xs = map h xs"
  by (induction xs) (simp_all add: List.map_filter_simps)

lemma search_empty_query:
  assumes "\<forall>d\<in>set (districts g). d_name d \<noteq> []"
  shows "search g [] ''district'' =
         map (\<lambda>d. \<lparr>r_type = ''district'', r_name = d_name d, r_district = None,
                    r_postalCode = None, relevance = 80\<rparr>) (districts g)"
proof -
  let ?h = "\<lambda>d. \<lparr>r_type = ''district'', r_name = d_name d, r_district = None,
                    r_postalCode = None, relevance = 80\<rparr>"
  have "\<forall>d\<in>set (districts g). districtHit [] d = Some (?h d)"
    using assms by (simp add: districtHit_def calculateRelevance_empty)
  then have mf: "List.map_filter (districtHit []) (districts g) = map ?h (districts g)"
    by (rule map_filter_all_Some)
  have flt: "filter (\<lambda>r. 20 < relevance r) (map ?h (districts g)) = map ?h (districts g)"
    by (simp add: filter_map comp_def)
  have srt: "jsSort (\<lambda>a b. relevance b - relevance a) (map ?h (districts g)) = map ?h (districts g)"
    by (rule jsSort_ordered) auto
  have "trim (toLowerCase []) = []" by (simp add: toLowerCase_def trim_Nil)
  then show ?thesis
    by (simp add: search_def Let_def mf flt srt)
qed

lemma length_insertSorted: "length (insertSorted cmp x ys) = Suc (length ys)"
  by (induction ys) auto

lemma length_jsSort: "length (jsSort cmp xs) = length xs"
  by (induction xs) (simp_all add: jsSort_def length_insertSorted)

lemma search_empty_query_any:
  "\<exists>rs. search g [] ''district'' = rs \<and> length rs = length (districts g) \<and>
        set rs = (\<lambda>d. \<lparr>r_type = ''district'', r_name = d_name d, r_district = None,
                          r_postalCode = None,
                          relevance = (if d_name d = [] then 100 else 80)\<rparr>) ` set (districts g)"
proof -
  let ?h = "\<lambda>d. \<lparr>r_type = ''district'', r_name = d_name d, r_district = None,
                    r_postalCode = None, relevance = (if d_name d = [] then 100 else 80)\<rparr>"
  have "districtHit [] d = Some (?h d)" for d :: district
  proof (cases "d_name d = []")
    case True
    then show ?thesis
      by (simp add: districtHit_def calculateRelevance_def toLowerCase_def)
  next
    case False
    then show ?thesis
      by (simp add: districtHit_def calculateRelevance_empty)
  qed
  then have "\<forall>d\<in>set (districts g). districtHit [] d = Some (?h d)" by simp
  then have mf: "List.map_filter (districtHit []) (districts g) = map ?h (districts g)"
    by (rule map_filter_all_Some)
  have flt: "filter (\<lambda>r. 20 < relevance r) (map ?h (districts g)) = map ?h (districts g)"
    by (simp add: filter_map comp_def)
  have "trim (toLowerCase []) = []" by (simp add: toLowerCase_def trim_Nil)
  then have "search g [] ''district'' =
               jsSort (\<lambda>a b. relevance b - relevance a) (map ?h (districts g))"
    by (simp add: search_def Let_def mf flt)
  then show ?thesis by (simp add: length_jsSort set_jsSort)
qed

text \<open>
  Claim C9. For every non-empty candidate text the relevance against the empty query is
  80, since the empty string is a prefix of every string. Consequently
  \<open>GeoSearch.searchDistricts\<close> with the empty string does not return the empty list: it
  returns as many results as the limit allows, every result with a non-empty name has
  relevance 80, and when all district names are non-empty the results are the first
  \<open>limit\<close> districts in the order of the store, each with relevance 80.
\<close>

theorem empty_query_relevance:
  "(candidate \<noteq> [] \<longrightarrow> calculateRelevance candidate [] = 80) \<and>
   length (searchDistricts g [] lmt includeStats) = min lmt (length (districts g)) \<and>
   (\<forall>r\<in>set (searchDistricts g [] lmt includeStats). ds_name r \<noteq> [] \<longrightarrow> ds_relevance r = 80) \<and>
   ((\<forall>d\<in>set (districts g). d_name d \<noteq> []) \<longrightarrow>
      map (\<lambda>r. (ds_name r, ds_relevance r)) (searchDistricts g [] lmt includeStats) =
        map (\<lambda>d. (d_name d, 80)) (take lmt (districts g)))"
proof (intro conjI impI ballI)
  assume "candidate \<noteq> []"
  then show "calculateRelevance candidate [] = 80" by (rule calculateRelevance_empty)
next
  show "length (searchDistricts g [] lmt includeStats) = min lmt (length (districts g))"
    using search_empty_query_any [of g] by (simp add: searchDistricts_def min.commute)
next
  fix r assume r: "r \<in> set (searchDistricts g [] lmt includeStats)" and n: "ds_name r \<noteq> []"
  from r obtain x where x: "x \<in> set (take lmt (search g [] ''district''))"
    and rx: "ds_name r = r_name x" "ds_relevance r = relevance x"
    by (auto simp: searchDistricts_def)
  from x have "x \<in> set (search g [] ''district'')" by (rule in_set_takeD)
  then obtain d :: district where "x = \<lparr>r_type = ''district'', r_name = d_name d, r_district = None,
                          r_postalCode = None,
                          relevance = (if d_name d = [] then 100 else 80)\<rparr>"
    using search_empty_query_any [of g] by auto
  then show "ds_relevance r = 80" using rx n by simp
next
  assume "\<forall>d\<in>set (districts g). d_name d \<noteq> []"
  then show "map (\<lambda>r. (ds_name r, ds_relevance r)) (searchDistricts g [] lmt includeStats) =
          map (\<lambda>d. (d_name d, 80)) (take lmt (districts g))"
    using search_empty_query [of g]
    by (simp add: searchDistricts_def take_map comp_def)
qed

theorem empty_query_relevance_witness:
  "''Kaski'' \<noteq> [] \<and> calculateRelevance ''Kaski'' [] = 80 \<and>
   list_all (\<lambda>d. d_name d \<noteq> []) (districts sampleStore) \<and>
   map (\<lambda>r. (ds_name r, ds_relevance r)) (searchDistricts sampleStore [] 2 True) =
     [(''Kathmandu'', 80), (''Chitwan'', 80)] \<and>
   length (searchDistricts sampleStore [] 2 True) = 2"
proof -
  have h: "\<forall>d\<in>set (districts sampleStore). d_name d \<noteq> []" by code_simp
  have n: "''Kaski'' \<noteq> []" by simp
  have r: "map (\<lambda>r. (ds_name r, ds_relevance r)) (searchDistricts sampleStore [] 2 True) =
             map (\<lambda>d. (d_name d, 80)) (take 2 (districts sampleStore)) \<and>
           length (searchDistricts sampleStore [] 2 True) = min 2 (length (districts sampleStore))"
    using empty_query_relevance [of "''Kaski''" sampleStore 2 True] h by blast
  have e: "map (\<lambda>d. (d_name d, 80::int)) (take 2 (districts sampleStore)) =
             [(''Kathmandu'', 80), (''Chitwan'', 80)]"
    by code_simp
  have l: "min 2 (length (districts sampleStore)) = 2" by code_simp
  have c: "calculateRelevance ''Kaski'' [] = 80"
    using empty_query_relevance [of "''Kaski''" sampleStore 2 True] n by blast
  have a: "list_all (\<lambda>d. d_name d \<noteq> []) (districts sampleStore)"
    using h by (simp add: list_all_iff)
  show ?thesis using r e l c a n by simp
qed

section \<open>Suggestions\<close>

lemma distinct_setAdd: "distinct s \<Longrightarrow> distinct (setAdd s x)"
  by (simp add: setAdd_def)

lemma set_setAdd: "set (setAdd s x) = insert x (set s)"
  by (auto simp: setAdd_def)

lemma suggestions_fold:
  assumes "distinct s" and "\<forall>n\<in>set s. startsWith (toLowerCase n) q"
  shows "distinct (foldl (\<lambda>s x. if startsWith (toLowerCase (f x)) q then setAdd s (f x) else s) s xs) \<and>
         (\<forall>n\<in>set (foldl (\<lambda>s x. if startsWith (toLowerCase (f x)) q then setAdd s (f x) else s) s xs).
              startsWith (toLowerCase n) q)"
  using assms
proof (induction xs arbitrary: s)
  case Nil
  then show ?case by simp
next
  case (Cons x xs)
  show ?case
  proof (cases "startsWith (toLowerCase (f x)) q")
    case True
    have "distinct (setAdd s (f x))" using Cons.prems(1) by (rule distinct_setAdd)
    moreover have "\<forall>n\<in>set (setAdd s (f x)). startsWith (toLowerCase n) q"
      using Cons.prems(2) True by (simp add: set_setAdd)
    ultimately show ?thesis using Cons.IH [of "setAdd s (f x)"] True by simp
  next
    case False
    then show ?thesis using Cons.IH [OF Cons.prems] by simp
  qed
qed

text \<open>
  Claim C8. For a partial query shorter than two characters \<open>getSuggestions\<close> returns
  the empty sequence. For a partial query of at least two characters it returns a list of
  distinct names, each of which starts with the query when both are lower-cased, and the
  list is no longer than the limit.
\<close>

theorem getSuggestions_spec:
  "(length partialQuery < 2 \<longrightarrow> getSuggestions g partialQuery lmt type = []) \<and>
   (2 \<le> length partialQuery \<longrightarrow>
      distinct (getSuggestions g partialQuery lmt type) \<and>
      (\<forall>n\<in>set (getSuggestions g partialQuery lmt type).
          startsWith (toLowerCase n) (toLowerCase partialQuery)) \<and>
      length (getSuggestions g partialQuery lmt type) \<le> lmt)"
proof -
  define q where "q = toLowerCase partialQuery"
  define fd where "fd = foldl (\<lambda>s d. if startsWith (toLowerCase (d_name d)) q
                                   then setAdd s (d_name d) else s) [] (getAllDistricts g)"
  define s1 where "s1 = (if type = ''all'' \<or> type = ''district'' then fd else [])"
  define s2 where "s2 = (if type = ''all'' \<or> type = ''postOffice''
     then foldl (\<lambda>s po. if startsWith (toLowerCase (po_name po)) q
                                    then setAdd s (po_name po) else s) s1 (getAllPostOffices g)
     else s1)"
  have unfold: "getSuggestions g partialQuery lmt type =
                  (if length partialQuery < 2 then [] else take lmt s2)"
    by (simp add: getSuggestions_def Let_def s2_def s1_def fd_def q_def)
  have d: "distinct fd \<and> (\<forall>n\<in>set fd. startsWith (toLowerCase n) q)"
    unfolding fd_def
    by (rule suggestions_fold [where f = d_name and s = "[]"]) simp_all
  then have 1: "distinct s1 \<and> (\<forall>n\<in>set s1. startsWith (toLowerCase n) q)"
    by (simp add: s1_def)
  have 2: "distinct s2 \<and> (\<forall>n\<in>set s2. startsWith (toLowerCase n) q)"
  proof (cases "type = ''all'' \<or> type = ''postOffice''")
    case True
    have fp: "distinct (foldl (\<lambda>s po. if startsWith (toLowerCase (po_name po)) q
                                    then setAdd s (po_name po) else s) s1 (getAllPostOffices g)) \<and>
          (\<forall>n\<in>set (foldl (\<lambda>s po. if startsWith (toLowerCase (po_name po)) q
                                    then setAdd s (po_name po) else s) s1 (getAllPostOffices g)).
              startsWith (toLowerCase n) q)"
      using 1 by (intro suggestions_fold [where f = po_name and s = s1]) simp_all
    show ?thesis unfolding s2_def if_P [OF True] by (rule fp)
  next
    case False
    show ?thesis unfolding s2_def if_not_P [OF False] by (rule 1)
  qed
  have 3: "distinct (take lmt s2) \<and> (\<forall>n\<in>set (take lmt s2). startsWith (toLowerCase n) q) \<and>
           length (take lmt s2) \<le> lmt"
    using 2 by (auto dest: in_set_takeD)
  show ?thesis
    using 3 by (simp only: unfold q_def [symmetric]) simp
qed

theorem getSuggestions_spec_witness:
  "length ''K'' < 2 \<and> getSuggestions sampleStore ''K'' 5 ''all'' = [] \<and>
   2 \<le> length ''ka'' \<and>
   getSuggestions sampleStore ''ka'' 2 ''all'' = [''Kathmandu'', ''Kaski''] \<and>
   distinct (getSuggestions sampleStore ''ka'' 2 ''all'') \<and>
   list_all (\<lambda>n. startsWith (toLowerCase n) (toLowerCase ''ka''))
     (getSuggestions sampleStore ''ka'' 2 ''all'') \<and>
   length (getSuggestions sampleStore ''ka'' 2 ''all'') \<le> 2"
proof -
  have s: "length ''K'' < 2" by simp
  have e: "getSuggestions sampleStore ''K'' 5 ''all'' = []"
    using getSuggestions_spec [of "''K''" sampleStore 5 "''all''"] s by blast
  have l: "2 \<le> length ''ka''" by simp
  have p: "distinct (getSuggestions sampleStore ''ka'' 2 ''all'') \<and>
           (\<forall>n\<in>set (getSuggestions sampleStore ''ka'' 2 ''all'').
               startsWith (toLowerCase n) (toLowerCase ''ka'')) \<and>
           length (getSuggestions sampleStore ''ka'' 2 ''all'') \<le> 2"
    using getSuggestions_spec [of "''ka''" sampleStore 2 "''all''"] l by blast
  have v: "getSuggestions sampleStore ''ka'' 2 ''all'' = [''Kathmandu'', ''Kaski'']"
    by code_simp
  show ?thesis using s e l p v by (simp add: list_all_iff)
qed

section \<open>Dataset Store: postal codes\<close>

lemma postOffices_processEntries:
  "postOffices (foldl processEntry g es) =
   postOffices g @
   map (\<lambda>e. \<lparr>po_name = rawPostOffice e, po_postalCode = rawPostalCode e,
              po_type = rawType e, po_district = normalizeDistrictName (rawDistrict e)\<rparr>) es"
  by (induction es arbitrary: g) (simp_all add: processEntry_def Let_def)

text \<open>
  Claim C3, as the code has it. \<open>processData\<close> stores one post office for every raw
  record, in the order of the source, and never compares postal codes: the stored postal
  codes are the raw ones, and they are unique across the store exactly when they are
  unique across the raw records.
\<close>

theorem processData_postalCodes:
  "\<exists>g. processData (Some es) = Inr g \<and>
        map po_postalCode (postOffices g) = map rawPostalCode es \<and>
        distinct (map po_postalCode (postOffices g)) = distinct (map rawPostalCode es)"
  by (simp add: processData_def postOffices_processEntries comp_def)

text \<open>Two raw records with the postal code 44600 give two stored post offices with
  that code.\<close>

theorem processData_duplicate_codes:
  "processData (Some duplicateRecords) = Inr duplicateStore \<and>
   map po_postalCode (postOffices duplicateStore) = [''44600'', ''44600''] \<and>
   \<not> distinct (map po_postalCode (postOffices duplicateStore))"
  by code_simp

section \<open>Query Router: postal codes\<close>

lemma dropWhile_none: "(\<forall>c\<in>set s. \<not> P c) \<Longrightarrow> dropWhile P s = s"
  by (cases s) simp_all

lemma trim_no_space: "(\<forall>c\<in>set s. \<not> isWhiteSpace c) \<Longrightarrow> trim s = s"
  by (simp add: trim_def dropWhile_none)

lemma isDigit_props:
  "isDigit c \<Longrightarrow> \<not> isWhiteSpace c \<and> toLowerChar c = c \<and> c \<noteq> CHR '' ''"
  by (auto simp: isDigit_def isWhiteSpace_def toLowerChar_def Let_def)

lemma isPostalCode_props:
  assumes "isPostalCode P"
  shows "P \<noteq> []" and "trim P = P" and "toLowerCase P = P"
    and "filter (\<lambda>c. c = CHR '' '') P = []"
proof -
  have d: "\<forall>c\<in>set P. isDigit c" using assms by (simp add: isPostalCode_def list_all_iff)
  show "P \<noteq> []" using assms by (auto simp: isPostalCode_def)
  show "trim P = P" using d by (intro trim_no_space) (simp add: isDigit_props)
  show "toLowerCase P = P" using d by (simp add: toLowerCase_def map_idI isDigit_props)
  show "filter (\<lambda>c. c = CHR '' '') P = []" using d by (auto simp: filter_empty_conv isDigit_props)
qed

lemma matchTypePriority_le_5: "matchTypePriority mt \<le> 5"
  by (simp add: matchTypePriority_def)

lemma set_map_filter: "set (List.map_filter f xs) = {y. \<exists>x\<in>set xs. f x = Some y}"
  by (induction xs) (auto simp: List.map_filter_simps split: option.splits)

lemma search_elems:
  assumes "r \<in> set (search g query type)"
  shows "(\<exists>d\<in>set (districts g). districtHit (trim (toLowerCase query)) d = Some r) \<or>
         (\<exists>po\<in>set (postOffices g). postOfficeHit query (trim (toLowerCase query)) po = Some r)"
  using assms
  by (auto simp: search_def Let_def set_jsSort set_map_filter split: if_splits)

lemma calculateRelevance_le_100:
  "filter (\<lambda>c. c = CHR '' '') q = [] \<Longrightarrow> calculateRelevance t q \<le> 100"
  using calculateRelevance_general_bounds [of t q] by simp

lemma search_relevance_le_100:
  assumes "r \<in> set (search g query type)"
    and "filter (\<lambda>c. c = CHR '' '') (trim (toLowerCase query)) = []"
  shows "relevance r \<le> 100"
proof -
  from search_elems [OF assms(1)] show ?thesis
  proof
    assume "\<exists>d\<in>set (districts g). districtHit (trim (toLowerCase query)) d = Some r"
    then obtain d where "districtHit (trim (toLowerCase query)) d = Some r" by blast
    then have "relevance r = calculateRelevance (d_name d) (trim (toLowerCase query))"
      by (auto simp: districtHit_def Let_def split: if_splits)
    then show ?thesis using calculateRelevance_le_100 [OF assms(2)] by simp
  next
    assume "\<exists>po\<in>set (postOffices g).
              postOfficeHit query (trim (toLowerCase query)) po = Some r"
    then obtain po where "postOfficeHit query (trim (toLowerCase query)) po = Some r"
      by blast
    then have "relevance r = max (calculateRelevance (po_name po) (trim (toLowerCase query)))
                                 (if includesStr (po_postalCode po) query then 90 else 0)"
      by (auto simp: postOfficeHit_def Let_def split: if_splits)
    then show ?thesis
      using calculateRelevance_le_100 [OF assms(2), of "po_name po"] by simp
  qed
qed

lemma set_removeDuplicatesSeen: "set (removeDuplicatesSeen seen rs) \<subseteq> set rs"
  by (induction rs arbitrary: seen) auto

lemma removeDuplicates_Cons:
  "removeDuplicates (r # rs) = r # removeDuplicatesSeen [resultKey r] rs"
  by (simp add: removeDuplicates_def)

lemma relevance_withMatchType: "relevance (withMatchType q r) = relevance r"
  by (simp add: withMatchType_def result.defs searchResult.defs)

lemma fields_withMatchType:
  "r_type (withMatchType q r) = r_type r" "r_name (withMatchType q r) = r_name r"
  "r_district (withMatchType q r) = r_district r"
  "r_postalCode (withMatchType q r) = r_postalCode r"
  "matchType (withMatchType q r) = determineMatchType q (r_name r) (r_postalCode r)"
  by (simp_all add: withMatchType_def result.defs searchResult.defs)

lemma sortResults_relevance:
  "sortResults lc rs ''relevance'' = jsSort compareRelevance rs"
  by (simp add: sortResults_def)

lemma find_present:
  assumes "P \<in> set (map po_postalCode (postOffices g))"
  shows "\<exists>po. getPostOfficeByCode g P = Some po \<and> po \<in> set (postOffices g) \<and> po_postalCode po = P"
proof (cases "getPostOfficeByCode g P")
  case None
  then show ?thesis using assms by (auto simp: getPostOfficeByCode_def find_None_iff)
next
  case (Some po)
  then show ?thesis by (auto simp: getPostOfficeByCode_def find_Some_iff)
qed

text \<open>
  Claim C4. For every postal code \<open>P\<close> (five ASCII digits) present in the dataset,
  \<open>searchByQuery\<close> with the default options, that is with scope \<open>all\<close>, returns a
  list that contains an entry for the post office that owns \<open>P\<close>, with matchType
  \<open>exact_postal\<close> and relevance 100, and after the removal of duplicates and the
  ranking this entry is the first element of the returned list.
\<close>

theorem searchByQuery_postal_code:
  assumes "isPostalCode P" and "P \<in> set (map po_postalCode (postOffices g))"
  shows "\<exists>po rest. getPostOfficeByCode g P = Some po \<and> po \<in> set (postOffices g) \<and>
           po_postalCode po = P \<and>
           searchByQuery localeCompare g (JStr P) defaultSearchOptions =
             \<lparr>r_type = ''postOffice'', r_name = po_name po, r_district = Some (po_district po),
              r_postalCode = Some P, relevance = 100, matchType = ''exact_postal''\<rparr> # rest"
proof -
  obtain po where po: "getPostOfficeByCode g P = Some po" "po \<in> set (postOffices g)"
    "po_postalCode po = P"
    using find_present [OF assms(2)] by blast
  let ?E = "exactPostalResult po"
  let ?rs = "map (withMatchType P)
               (filter (\<lambda>r. minRelevance defaultSearchOptions \<le> of_int (relevance r))
                  (search g P (includeType defaultSearchOptions)))"
  let ?dd = "removeDuplicatesSeen [resultKey ?E] ?rs"
  have nosp: "filter (\<lambda>c. c = CHR '' '') (trim (toLowerCase P)) = []"
    using isPostalCode_props [OF assms(1)] by simp
  have le: "compareRelevance ?E y \<le> 0" if "y \<in> set ?dd" for y
  proof -
    from that have "y \<in> set ?rs" using set_removeDuplicatesSeen by blast
    then obtain r where r: "r \<in> set (search g P (includeType defaultSearchOptions))"
      and y: "y = withMatchType P r" by auto
    have "relevance y \<le> 100"
      using search_relevance_le_100 [OF r nosp] by (simp add: y relevance_withMatchType)
    moreover have "matchTypePriority (matchType y) \<le> 5" by (rule matchTypePriority_le_5)
    ultimately show ?thesis
      by (simp add: compareRelevance_def Let_def exactPostalResult_def matchTypePriority_def)
  qed
  have srt: "jsSort compareRelevance (?E # ?dd) = ?E # jsSort compareRelevance ?dd"
    by (rule jsSort_first) (simp add: le)
  have "searchByQuery localeCompare g (JStr P) defaultSearchOptions =
          take (limit defaultSearchOptions)
            (sortResults localeCompare (removeDuplicates (?E # ?rs)) (sortBy defaultSearchOptions))"
    using isPostalCode_props [OF assms(1)] assms(1) po(1)
    by (simp add: searchByQuery_def Let_def searchByPostalCode_def)
  also have "\<dots> = take 10 (jsSort compareRelevance (?E # ?dd))"
    by (simp add: removeDuplicates_Cons sortResults_def defaultSearchOptions_def)
  also have "\<dots> = ?E # take 9 (jsSort compareRelevance ?dd)"
    by (simp only: srt) simp
  finally have "searchByQuery localeCompare g (JStr P) defaultSearchOptions =
                  ?E # take 9 (jsSort compareRelevance ?dd)" .
  then show ?thesis using po by (auto simp: exactPostalResult_def)
qed

theorem searchByQuery_postal_code_witness:
  "isPostalCode ''44614'' \<and> ''44614'' \<in> set (map po_postalCode (postOffices sampleStore)) \<and>
   (\<exists>po rest. getPostOfficeByCode sampleStore ''44614'' = Some po \<and>
       po \<in> set (postOffices sampleStore) \<and> po_postalCode po = ''44614'' \<and>
       searchByQuery codeUnitCompare sampleStore (JStr ''44614'') defaultSearchOptions =
         \<lparr>r_type = ''postOffice'', r_name = po_name po, r_district = Some (po_district po),
          r_postalCode = Some ''44614'', relevance = 100, matchType = ''exact_postal''\<rparr> # rest)"
proof -
  have h1: "isPostalCode ''44614''" by code_simp
  have h2: "''44614'' \<in> set (map po_postalCode (postOffices sampleStore))" by code_simp
  show ?thesis
    using searchByQuery_postal_code [OF h1 h2, of codeUnitCompare] h1 h2 by blast
qed

section \<open>Query Router: district names\<close>

lemma calculateRelevance_same:
  "calculateRelevance n (toLowerCase n) = 100"
  by (simp add: calculateRelevance_def toLowerCase_idem)

lemma in_removeDuplicatesSeen:
  assumes "x \<in> set rs" and "resultKey x \<notin> set seen"
    and "\<forall>y\<in>set rs. resultKey y = resultKey x \<longrightarrow> y = x"
  shows "x \<in> set (removeDuplicatesSeen seen rs)"
  using assms
proof (induction rs arbitrary: seen)
  case Nil
  then show ?case by simp
next
  case (Cons r rs)
  show ?case
  proof (cases "r = x")
    case True
    then show ?thesis using Cons.prems(2) by simp
  next
    case False
    then have k: "resultKey r \<noteq> resultKey x" using Cons.prems(3) by auto
    have x: "x \<in> set rs" using Cons.prems(1) False by simp
    have u: "\<forall>y\<in>set rs. resultKey y = resultKey x \<longrightarrow> y = x" using Cons.prems(3) by simp
    have 1: "x \<in> set (removeDuplicatesSeen seen rs)"
      by (rule Cons.IH [OF x Cons.prems(2) u])
    have "resultKey x \<notin> set (resultKey r # seen)" using k Cons.prems(2) by auto
    then have 2: "x \<in> set (removeDuplicatesSeen (resultKey r # seen) rs)"
      by (rule Cons.IH [OF x _ u])
    show ?thesis using 1 2 by simp
  qed
qed

lemma determineMatchType_not_exact:
  "toLowerCase name \<noteq> toLowerCase q \<Longrightarrow>
   matchTypePriority (determineMatchType q name None) < 5"
  by (simp add: determineMatchType_def Let_def matchTypePriority_def)

text \<open>
  Claim C5, as the code has it. Let \<open>D\<close> be a district of the dataset whose name is not
  empty, has no white space at its ends, is not a five-digit postal code of the dataset,
  and is the only district name with its lower-case form. Then \<open>searchByQuery\<close> with the
  query \<open>D.name\<close> and scope \<open>district\<close> returns a non-empty list whose first element
  has the name \<open>D.name\<close>, matchType \<open>exact\<close> and relevance 100.
\<close>

theorem searchByQuery_district_name:
  assumes "D \<in> set (districts g)"
    and "d_name D \<noteq> []"
    and "trim (d_name D) = d_name D"
    and "getPostOfficeByCode g (d_name D) = None \<or> \<not> isPostalCode (d_name D)"
    and "\<forall>D'\<in>set (districts g).
           toLowerCase (d_name D') = toLowerCase (d_name D) \<longrightarrow> d_name D' = d_name D"
  shows "\<exists>rest. searchByQuery localeCompare g (JStr (d_name D))
                  (defaultSearchOptions\<lparr>includeType := ''district''\<rparr>) =
           \<lparr>r_type = ''district'', r_name = d_name D, r_district = None,
            r_postalCode = None, relevance = 100, matchType = ''exact''\<rparr> # rest"
proof -
  let ?n = "d_name D"
  let ?nq = "toLowerCase ?n"
  let ?R = "\<lparr>r_type = ''district'', r_name = ?n, r_district = None,
              r_postalCode = None, relevance = 100\<rparr>"
  let ?E = "\<lparr>r_type = ''district'', r_name = ?n, r_district = None,
             r_postalCode = None, relevance = 100, matchType = ''exact''\<rparr>"
  let ?sr = "search g ?n ''district''"
  let ?rs = "map (withMatchType ?n) (filter (\<lambda>r. (3 / 10 :: rat) \<le> of_int (relevance r)) ?sr)"
  have nq: "trim (toLowerCase ?n) = ?nq"
    by (simp add: trim_toLowerCase assms(3))
  have sr_set: "set ?sr = {r. (\<exists>d\<in>set (districts g). districtHit ?nq d = Some r) \<and>
                              20 < relevance r}"
    by (auto simp: search_def Let_def set_jsSort set_map_filter nq)
  have dR: "districtHit ?nq D = Some ?R"
    by (simp add: districtHit_def calculateRelevance_same)
  have wE: "withMatchType ?n ?R = ?E"
    by (simp add: withMatchType_def result.defs searchResult.defs determineMatchType_def)
  have R_in: "?R \<in> set ?sr" using dR assms(1) by (auto simp: sr_set)
  have E_in: "?E \<in> set ?rs"
  proof -
    have "?R \<in> set (filter (\<lambda>r. (3 / 10 :: rat) \<le> of_int (relevance r)) ?sr)"
      using R_in by simp
    then have "withMatchType ?n ?R \<in> set ?rs" by (simp only: set_map) (rule imageI)
    then show ?thesis by (simp only: wE)
  qed
  have shape: "\<exists>d\<in>set (districts g).
                  y = withMatchType ?n
                        \<lparr>r_type = ''district'', r_name = d_name d, r_district = None,
                         r_postalCode = None,
                         relevance = calculateRelevance (d_name d) ?nq\<rparr>"
    if "y \<in> set ?rs" for y
  proof -
    from that obtain r where r: "r \<in> set ?sr" and y: "y = withMatchType ?n r" by auto
    from r obtain d where d: "d \<in> set (districts g)" "districtHit ?nq d = Some r"
      by (auto simp: sr_set)
    from d(2) have "r = \<lparr>r_type = ''district'', r_name = d_name d, r_district = None,
                         r_postalCode = None,
                         relevance = calculateRelevance (d_name d) ?nq\<rparr>"
      by (auto simp: districtHit_def Let_def split: if_splits)
    then show ?thesis using d(1) y by blast
  qed
  have other: "toLowerCase (r_name y) \<noteq> ?nq \<and> r_postalCode y = None \<and>
               matchType y = determineMatchType ?n (r_name y) None \<and>
               resultKey y \<noteq> resultKey ?E"
    if "y \<in> set ?rs" and "y \<noteq> ?E" for y
  proof -
    from shape [OF that(1)] obtain d where d: "d \<in> set (districts g)"
      and y: "y = withMatchType ?n
                    \<lparr>r_type = ''district'', r_name = d_name d, r_district = None,
                     r_postalCode = None, relevance = calculateRelevance (d_name d) ?nq\<rparr>"
      by blast
    have ne: "d_name d \<noteq> ?n"
    proof
      assume "d_name d = ?n"
      then have "y = ?E" by (simp add: y calculateRelevance_same wE)
      then show False using that(2) by simp
    qed
    then have lne: "toLowerCase (d_name d) \<noteq> ?nq" using assms(5) d by blast
    have key: "resultKey y \<noteq> resultKey ?E"
      using ne by (simp add: y resultKey_def fields_withMatchType)
    show ?thesis using lne key by (simp add: y fields_withMatchType)
  qed
  let ?dd = "removeDuplicates ?rs"
  have dd_sub: "set ?dd \<subseteq> set ?rs"
    unfolding removeDuplicates_def by (rule set_removeDuplicatesSeen)
  have E_dd: "?E \<in> set ?dd"
    unfolding removeDuplicates_def
  proof (rule in_removeDuplicatesSeen [OF E_in])
    show "resultKey ?E \<notin> set []" by simp
    show "\<forall>y\<in>set ?rs. resultKey y = resultKey ?E \<longrightarrow> y = ?E"
      using other by blast
  qed
  have cmpEE: "compareRelevance ?E ?E \<le> 0" by (simp add: compareRelevance_def)
  have cmp: "\<forall>y\<in>set ?dd. y \<noteq> ?E \<longrightarrow>
               compareRelevance ?E y \<le> 0 \<and> 0 < compareRelevance y ?E"
  proof (intro ballI impI)
    fix y assume y: "y \<in> set ?dd" "y \<noteq> ?E"
    then have "y \<in> set ?rs" using dd_sub by blast
    from other [OF this y(2)]
    have p: "matchTypePriority (matchType y) < 5"
      using determineMatchType_not_exact [of "r_name y" ?n] by simp
    have e: "matchTypePriority (matchType ?E) = 5" by (simp add: matchTypePriority_def)
    show "compareRelevance ?E y \<le> 0 \<and> 0 < compareRelevance y ?E"
      using p unfolding compareRelevance_def Let_def e by simp
  qed
  obtain rest where rest: "jsSort compareRelevance ?dd = ?E # rest"
    using jsSort_unique_best [OF E_dd cmpEE cmp] by blast
  have "searchByQuery localeCompare g (JStr ?n) (defaultSearchOptions\<lparr>includeType := ''district''\<rparr>) =
          take 10 (sortResults localeCompare (removeDuplicates ?rs) ''relevance'')"
    using assms(2) assms(4)
    by (auto simp: searchByQuery_def Let_def defaultSearchOptions_def assms(3)
          searchByPostalCode_def)
  also have "\<dots> = take 10 (?E # rest)"
    by (simp only: sortResults_relevance rest)
  finally show ?thesis by simp
qed

theorem searchByQuery_district_name_witness:
  "chitwan \<in> set (districts sampleStore) \<and> d_name chitwan \<noteq> [] \<and>
   trim (d_name chitwan) = d_name chitwan \<and> \<not> isPostalCode (d_name chitwan) \<and>
   list_all (\<lambda>D'. toLowerCase (d_name D') = toLowerCase (d_name chitwan) \<longrightarrow>
                   d_name D' = d_name chitwan) (districts sampleStore) \<and>
   (\<exists>rest. searchByQuery codeUnitCompare sampleStore (JStr (d_name chitwan))
             (defaultSearchOptions\<lparr>includeType := ''district''\<rparr>) =
           \<lparr>r_type = ''district'', r_name = d_name chitwan, r_district = None,
            r_postalCode = None, relevance = 100, matchType = ''exact''\<rparr> # rest)"
proof -
  have h1: "chitwan \<in> set (districts sampleStore)" by code_simp
  have h2: "d_name chitwan \<noteq> []" by code_simp
  have h3: "trim (d_name chitwan) = d_name chitwan" by code_simp
  have h4: "\<not> isPostalCode (d_name chitwan)" by code_simp
  have h5: "\<forall>D'\<in>set (districts sampleStore).
              toLowerCase (d_name D') = toLowerCase (d_name chitwan) \<longrightarrow>
              d_name D' = d_name chitwan"
    by code_simp
  have h4': "getPostOfficeByCode sampleStore (d_name chitwan) = None \<or>
             \<not> isPostalCode (d_name chitwan)"
    using h4 by simp
  have c: "\<exists>rest. searchByQuery codeUnitCompare sampleStore (JStr (d_name chitwan))
             (defaultSearchOptions\<lparr>includeType := ''district''\<rparr>) =
           \<lparr>r_type = ''district'', r_name = d_name chitwan, r_district = None,
            r_postalCode = None, relevance = 100, matchType = ''exact''\<rparr> # rest"
    by (rule searchByQuery_district_name [OF h1 h2 h3 h4' h5])
  have a: "list_all (\<lambda>D'. toLowerCase (d_name D') = toLowerCase (d_name chitwan) \<longrightarrow>
                   d_name D' = d_name chitwan) (districts sampleStore)"
    using h5 by (simp only: list_all_iff)
  show ?thesis using h1 h2 h3 h4 a c by blast
qed

text \<open>
  A source that spells one district as \<open>kathmandu\<close> and as \<open>Kathmandu\<close> gives two
  districts. Both match the query \<open>Kathmandu\<close> exactly with relevance 100, the stable sort
  keeps them in the order of the store, and the first element is \<open>kathmandu\<close>.
\<close>

theorem searchByQuery_district_name_case_variants:
  "processData (Some caseRecords) = Inr caseStore \<and>
   map d_name (districts caseStore) = [''kathmandu'', ''Kathmandu''] \<and>
   searchByQuery codeUnitCompare caseStore (JStr ''Kathmandu'')
       (defaultSearchOptions\<lparr>includeType := ''district''\<rparr>) =
     [\<lparr>r_type = ''district'', r_name = ''kathmandu'', r_district = None,
       r_postalCode = None, relevance = 100, matchType = ''exact''\<rparr>,
      \<lparr>r_type = ''district'', r_name = ''Kathmandu'', r_district = None,
       r_postalCode = None, relevance = 100, matchType = ''exact''\<rparr>] \<and>
   r_name (hd (searchByQuery codeUnitCompare caseStore (JStr ''Kathmandu'')
                 (defaultSearchOptions\<lparr>includeType := ''district''\<rparr>))) \<noteq> ''Kathmandu''"
  by code_simp

section \<open>Inputs of the wrong shape\<close>

text \<open>
  Claim C2, as the code has it. For a query that is not a string \<open>searchByQuery\<close> returns
  the empty list. For an address that is not an object \<open>validateAddress\<close> returns the
  invalid result with the error \<open>Address must be a valid object\<close>. For a district name,
  a postal code or a post office name that is not a string, \<open>validateDistrict\<close>,
  \<open>validatePostalCode\<close> and \<open>validatePostOffice\<close> return an invalid result with an
  error string that says so. None of them throws on such an input. \<open>batchValidate\<close>
  fails fast instead: for an address list that is not an array it throws the error
  \<open>Addresses must be an array\<close>.
\<close>

theorem wrong_shape_inputs:
  "(typeof q \<noteq> ''string'' \<longrightarrow> searchByQuery localeCompare g q opts = []) \<and>
   (typeof a \<noteq> ''object'' \<or> a = JNull \<longrightarrow>
      validateAddress numberToString g a =
        Inr \<lparr>isValid = False, errors = [''Address must be a valid object''], warnings = [],
             suggestions = [], completenessInfo = None, recommendation = None\<rparr>) \<and>
   (typeof d \<noteq> ''string'' \<longrightarrow>
      validateDistrict g d =
        \<lparr>dv_isValid = False,
         dv_error = Some ''District name is required and must be a string'',
         dv_district = None, dv_suggestions = []\<rparr>) \<and>
   (typeof c \<noteq> ''string'' \<longrightarrow>
      validatePostalCode g c =
        \<lparr>pv_isValid = False,
         pv_error = Some ''Postal code is required and must be a string'',
         pv_postalInfo = None\<rparr>) \<and>
   (typeof p \<noteq> ''string'' \<longrightarrow>
      validatePostOffice numberToString g p d' =
        Inr \<lparr>ov_isValid = False,
             ov_error = Some ''Post office name is required and must be a string'',
             ov_postOffice = None, ov_suggestions = []\<rparr>) \<and>
   (\<not> isArray addresses \<longrightarrow>
      batchValidate numberToString g addresses = Inl (Error ''Addresses must be an array''))"
proof (intro conjI impI)
  assume "typeof q \<noteq> ''string''"
  then show "searchByQuery localeCompare g q opts = []"
    by (cases q) (simp_all add: typeof_def searchByQuery_def)
next
  assume "typeof a \<noteq> ''object'' \<or> a = JNull"
  then have "\<not> truthy a \<or> typeof a \<noteq> ''object''"
    by (auto simp: truthy_def)
  then show "validateAddress numberToString g a =
        Inr \<lparr>isValid = False, errors = [''Address must be a valid object''], warnings = [],
             suggestions = [], completenessInfo = None, recommendation = None\<rparr>"
    by (simp only: validateAddress_def if_True)
next
  assume "typeof d \<noteq> ''string''"
  then show "validateDistrict g d =
        \<lparr>dv_isValid = False,
         dv_error = Some ''District name is required and must be a string'',
         dv_district = None, dv_suggestions = []\<rparr>"
    by (cases d) (simp_all add: typeof_def validateDistrict_def)
next
  assume "typeof c \<noteq> ''string''"
  then show "validatePostalCode g c =
        \<lparr>pv_isValid = False,
         pv_error = Some ''Postal code is required and must be a string'',
         pv_postalInfo = None\<rparr>"
    by (cases c) (simp_all add: typeof_def validatePostalCode_def)
next
  assume "typeof p \<noteq> ''string''"
  then show "validatePostOffice numberToString g p d' =
        Inr \<lparr>ov_isValid = False,
             ov_error = Some ''Post office name is required and must be a string'',
             ov_postOffice = None, ov_suggestions = []\<rparr>"
    by (cases p) (simp_all add: typeof_def validatePostOffice_def)
next
  assume "\<not> isArray addresses"
  then show "batchValidate numberToString g addresses = Inl (Error ''Addresses must be an array'')"
    by (cases addresses) (simp_all add: isArray_def batchValidate_def)
qed

theorem wrong_shape_inputs_witness:
  "typeof (JNum 44600) \<noteq> ''string'' \<and>
   searchByQuery codeUnitCompare sampleStore (JNum 44600) defaultSearchOptions = [] \<and>
   typeof (JStr ''Kathmandu'') \<noteq> ''object'' \<and>
   validateAddress decimalString sampleStore (JStr ''Kathmandu'') =
     Inr \<lparr>isValid = False, errors = [''Address must be a valid object''], warnings = [],
          suggestions = [], completenessInfo = None, recommendation = None\<rparr> \<and>
   typeof (JNum 7) \<noteq> ''string'' \<and>
   validateDistrict sampleStore (JNum 7) =
     \<lparr>dv_isValid = False,
      dv_error = Some ''District name is required and must be a string'',
      dv_district = None, dv_suggestions = []\<rparr> \<and>
   typeof JNull \<noteq> ''string'' \<and>
   validatePostalCode sampleStore JNull =
     \<lparr>pv_isValid = False,
      pv_error = Some ''Postal code is required and must be a string'',
      pv_postalInfo = None\<rparr> \<and>
   typeof (JBool True) \<noteq> ''string'' \<and>
   validatePostOffice decimalString sampleStore (JBool True) JUndefined =
     Inr \<lparr>ov_isValid = False,
          ov_error = Some ''Post office name is required and must be a string'',
          ov_postOffice = None, ov_suggestions = []\<rparr> \<and>
   \<not> isArray (JObj []) \<and>
   batchValidate decimalString sampleStore (JObj []) =
     Inl (Error ''Addresses must be an array'')"
proof -
  have h1: "typeof (JNum 44600) \<noteq> ''string''" by (simp add: typeof_def)
  have h2: "typeof (JStr ''Kathmandu'') \<noteq> ''object''" by (simp add: typeof_def)
  have h3: "typeof (JNum 7) \<noteq> ''string''" by (simp add: typeof_def)
  have h4: "typeof JNull \<noteq> ''string''" by (simp add: typeof_def)
  have h5: "typeof (JBool True) \<noteq> ''string''" by (simp add: typeof_def)
  have h6: "\<not> isArray (JObj [])" by (simp add: isArray_def)
  show ?thesis
    using wrong_shape_inputs [of "JNum 44600" codeUnitCompare sampleStore defaultSearchOptions
        "JStr ''Kathmandu''" decimalString "JNum 7" JNull "JBool True" JUndefined "JObj []"]
      h1 h2 h3 h4 h5 h6
    by blast
qed

text \<open>\<open>batchValidate\<close> with \<open>null\<close>, or with a string, in place of the array of
  addresses throws; it does not return a result.\<close>

theorem batchValidate_throws:
  "\<not> isArray JNull \<and>
   batchValidate decimalString sampleStore JNull = Inl (Error ''Addresses must be an array'') \<and>
   \<not> isArray (JStr ''Kathmandu'') \<and>
   batchValidate decimalString sampleStore (JStr ''Kathmandu'') =
     Inl (Error ''Addresses must be an array'')"
  by code_simp

end
